theory Spec2Isabelle
  imports Main
begin

section \<open>The edge gateway of src/worker/index-fixed.ts\<close>

text \<open>
  The worker exports one asynchronous handler, \<^verbatim>\<open>worker.fetch(request, env, ctx)\<close>.
  It parses the request URL, sends every path outside \<^verbatim>\<open>/api/\<close> to the asset
  binding \<^verbatim>\<open>env.ASSETS\<close> and rewrites HTML answers with a Content-Security-Policy
  header; paths under \<^verbatim>\<open>/api/\<close> go to the application built by
  \<^verbatim>\<open>createApp(env)\<close>, inside a \<^verbatim>\<open>try\<close>/\<^verbatim>\<open>catch\<close>.

  The embedding is a state-passing function. JavaScript values that the handler only
  passes along are records; a thrown value and a rejected promise are constructors of
  result types; Response objects live in a store under references, so that "the same
  object" and "a new object" are different results.
\<close>

subsection \<open>Strings\<close>

text \<open>
  \<^verbatim>\<open>String.prototype.startsWith\<close> and \<^verbatim>\<open>String.prototype.includes\<close> compare code
  units one by one: both are case-sensitive. Paths and header values are byte strings.
\<close>

fun startsWith :: "string \<Rightarrow> string \<Rightarrow> bool" where
  "startsWith s [] = True"
| "startsWith [] (p # ps) = False"
| "startsWith (c # cs) (p # ps) = (c = p \<and> startsWith cs ps)"

fun str_includes :: "string \<Rightarrow> string \<Rightarrow> bool" where
  "str_includes [] t = startsWith [] t"
| "str_includes (c # cs) t = (startsWith (c # cs) t \<or> str_includes cs t)"

text \<open>
  Header names are matched byte-case-insensitively: both names are lowered over the
  ASCII letters before they are compared. Header values are never lowered.
\<close>

definition lower_char :: "char \<Rightarrow> char" where
  "lower_char c =
     (case map_of (zip ''ABCDEFGHIJKLMNOPQRSTUVWXYZ'' ''abcdefghijklmnopqrstuvwxyz'') c of
        None \<Rightarrow> c
      | Some l \<Rightarrow> l)"

definition lowercase :: "string \<Rightarrow> string" where
  "lowercase s = map lower_char s"

definition same_name :: "string \<Rightarrow> string \<Rightarrow> bool" where
  "same_name a b = (lowercase a = lowercase b)"

subsection \<open>Thrown values, completions and promises\<close>

datatype js_error = TypeError string | OtherError string

text \<open>A call either returns a value or throws.\<close>

datatype 'a completion = Normal 'a | Throw js_error

text \<open>
  What becomes of a promise: it is fulfilled with a value, rejected with a reason, or it
  never settles.
\<close>

datatype 'a promise = Fulfilled 'a | Rejected js_error | Pending

text \<open>
  The application's \<^verbatim>\<open>fetch\<close> returns \<^verbatim>\<open>Response | Promise<Response>\<close>: a plain
  value or a promise.
\<close>

datatype 'a awaitable = Plain 'a | Promise "'a promise"

text \<open>
  \<^verbatim>\<open>return x\<close> in an async function resolves the function's promise with \<open>x\<close>: a
  plain value fulfils it, a promise is adopted with whatever becomes of it.
\<close>

fun resolve_with :: "'a awaitable \<Rightarrow> 'a promise" where
  "resolve_with (Plain v) = Fulfilled v"
| "resolve_with (Promise p) = p"

subsection \<open>Requests, URLs, header lists and responses\<close>

type_synonym header_list = "(string \<times> string) list"

record request =
  req_method :: string
  req_url :: string
  req_headers :: header_list
  req_body :: "string option"

record url =
  href :: string
  pathname :: string
  search :: string

text \<open>
  A response as the handler sees it. The body is the byte stream the response carries
  (\<open>None\<close> is the null body); the handler never reads it.
\<close>

record response =
  status :: nat
  statusText :: string
  headers :: header_list
  body :: "string option"

datatype execution_context = ExecutionContext nat

text \<open>
  \<^verbatim>\<open>Headers.prototype.get\<close>: null when no header of the list has the name, otherwise
  the values of all headers with that name, in order, joined by a comma and a space.
\<close>

definition values_of :: "header_list \<Rightarrow> string \<Rightarrow> string list" where
  "values_of hs name = map snd (filter (\<lambda>h. same_name (fst h) name) hs)"

fun join_values :: "string list \<Rightarrow> string" where
  "join_values [] = []"
| "join_values [v] = v"
| "join_values (v # w # vs) = v @ '', '' @ join_values (w # vs)"

definition headers_get :: "header_list \<Rightarrow> string \<Rightarrow> string option" where
  "headers_get hs name =
     (case values_of hs name of [] \<Rightarrow> None | v # vs \<Rightarrow> Some (join_values (v # vs)))"

definition headers_has :: "header_list \<Rightarrow> string \<Rightarrow> bool" where
  "headers_has hs name = (values_of hs name \<noteq> [])"

text \<open>
  \<^verbatim>\<open>Headers.prototype.set\<close>: when the list has the name, the first header of that name
  takes the value and the other headers of that name are removed; otherwise the header is
  appended.
\<close>

fun set_first :: "string \<Rightarrow> string \<Rightarrow> header_list \<Rightarrow> header_list" where
  "set_first name v [] = []"
| "set_first name v (h # hs) =
     (if same_name (fst h) name
      then (fst h, v) # filter (\<lambda>k. \<not> same_name (fst k) name) hs
      else h # set_first name v hs)"

definition headers_set :: "header_list \<Rightarrow> string \<Rightarrow> string \<Rightarrow> header_list" where
  "headers_set hs name v =
     (if headers_has hs name then set_first name v hs else hs @ [(name, v)])"

subsection \<open>The store, the trace and the collaborators\<close>

type_synonym ref = nat

text \<open>
  What the handler does to the outside, in order: a call of the asset binding's
  \<^verbatim>\<open>fetch\<close>, a call of \<^verbatim>\<open>createApp\<close>, a call of the application's \<^verbatim>\<open>fetch\<close>,
  a \<^verbatim>\<open>console.error\<close> with its label and the error.
\<close>

datatype event =
    AssetsFetch request
  | CreateApp
  | AppFetch request execution_context
  | ConsoleError string js_error

text \<open>
  The state of one run: the Response objects under their references, the next free
  reference, the trace of events, and the collaborators' own state \<open>world\<close>, which the
  handler cannot read.
\<close>

record 'w state =
  heap :: "ref \<Rightarrow> response"
  next_ref :: ref
  trace :: "event list"
  world :: 'w

text \<open>
  The collaborators are parameters: \<^verbatim>\<open>env.ASSETS.fetch\<close> of the environment, the
  imported \<^verbatim>\<open>createApp\<close> with the application it builds, and the platform's URL parser
  (\<^verbatim>\<open>new URL\<close> throws a TypeError on a string that is no URL). Each may throw, and what
  it answers may depend on the world, which it may change.
\<close>

record 'w env =
  ASSETS :: "request \<Rightarrow> 'w \<Rightarrow> response promise completion \<times> 'w"

type_synonym 'w app =
  "request \<Rightarrow> 'w env \<Rightarrow> execution_context \<Rightarrow> 'w \<Rightarrow> response awaitable completion \<times> 'w"

record 'w deps =
  new_URL :: "string \<Rightarrow> url completion"
  createApp :: "'w env \<Rightarrow> 'w \<Rightarrow> 'w app completion \<times> 'w"

definition alloc :: "response \<Rightarrow> 'w state \<Rightarrow> ref \<times> 'w state" where
  "alloc v s =
     (next_ref s, s\<lparr>heap := (heap s)(next_ref s := v), next_ref := Suc (next_ref s)\<rparr>)"

definition emit :: "event \<Rightarrow> 'w state \<Rightarrow> 'w state" where
  "emit e s = s\<lparr>trace := trace s @ [e]\<rparr>"

text \<open>
  A Response object that a collaborator hands over enters the store under a fresh
  reference: it is an object of its own, distinct from every object made before.
\<close>

fun adopt_promise :: "response promise \<Rightarrow> 'w state \<Rightarrow> ref promise \<times> 'w state" where
  "adopt_promise (Fulfilled v) s = (case alloc v s of (r, s') \<Rightarrow> (Fulfilled r, s'))"
| "adopt_promise (Rejected e) s = (Rejected e, s)"
| "adopt_promise Pending s = (Pending, s)"

fun adopt_awaitable :: "response awaitable \<Rightarrow> 'w state \<Rightarrow> ref awaitable \<times> 'w state" where
  "adopt_awaitable (Plain v) s = (case alloc v s of (r, s') \<Rightarrow> (Plain r, s'))"
| "adopt_awaitable (Promise p) s = (case adopt_promise p s of (q, s') \<Rightarrow> (Promise q, s'))"

definition call_ASSETS_fetch ::
  "'w env \<Rightarrow> request \<Rightarrow> 'w state \<Rightarrow> ref promise completion \<times> 'w state" where
  "call_ASSETS_fetch env request s =
     (let s1 = emit (AssetsFetch request) s in
      case ASSETS env request (world s1) of
        (Throw e, w) \<Rightarrow> (Throw e, s1\<lparr>world := w\<rparr>)
      | (Normal p, w) \<Rightarrow>
          (case adopt_promise p (s1\<lparr>world := w\<rparr>) of (q, s2) \<Rightarrow> (Normal q, s2)))"

definition call_createApp ::
  "'w deps \<Rightarrow> 'w env \<Rightarrow> 'w state \<Rightarrow> 'w app completion \<times> 'w state" where
  "call_createApp im env s =
     (let s1 = emit CreateApp s in
      case createApp im env (world s1) of (c, w) \<Rightarrow> (c, s1\<lparr>world := w\<rparr>))"

definition call_app_fetch ::
  "'w app \<Rightarrow> request \<Rightarrow> 'w env \<Rightarrow> execution_context \<Rightarrow> 'w state \<Rightarrow>
     ref awaitable completion \<times> 'w state" where
  "call_app_fetch app request env ctx s =
     (let s1 = emit (AppFetch request ctx) s in
      case app request env ctx (world s1) of
        (Throw e, w) \<Rightarrow> (Throw e, s1\<lparr>world := w\<rparr>)
      | (Normal a, w) \<Rightarrow>
          (case adopt_awaitable a (s1\<lparr>world := w\<rparr>) of (b, s2) \<Rightarrow> (Normal b, s2)))"

definition console_error :: "string \<Rightarrow> js_error \<Rightarrow> 'w state \<Rightarrow> 'w state" where
  "console_error label error s = emit (ConsoleError label error) s"

subsection \<open>The Response constructor\<close>

text \<open>
  \<^verbatim>\<open>new Response(body, init)\<close> as the Worker's runtime has it, as far as the
  handler uses it. The status defaults to 200. A status text that \<open>init\<close> does not
  give is the reason phrase of the status (\<^verbatim>\<open>OK\<close> for 200,
  \<^verbatim>\<open>Internal Server Error\<close> for 500); \<open>reason_phrase\<close> lists the common statuses
  and gives the empty text for any other, and the handler reaches this default only with
  the status 500. The headers of
  \<open>init\<close> are copied into a header list of the new object. A body given as a string
  is encoded with the type \<^verbatim>\<open>text/plain;charset=UTF-8\<close>, a stream has no type; when
  the body has a type and the header list has no \<^verbatim>\<open>Content-Type\<close>, the constructor
  appends one. The constructor's checks of \<open>init\<close> (a status outside 200..599, a body
  with a null-body status) are not part of the model: the handler passes the constant
  500, or the status and body of a response it was given.
\<close>

datatype body_init = BodyStream string | BodyText string

record response_init =
  init_status :: "nat option"
  init_statusText :: "string option"
  init_headers :: "header_list option"

definition body_type :: "body_init option \<Rightarrow> string option" where
  "body_type b =
     (case b of
        None \<Rightarrow> None
      | Some (BodyStream x) \<Rightarrow> None
      | Some (BodyText t) \<Rightarrow> Some ''text/plain;charset=UTF-8'')"

definition body_bytes :: "body_init option \<Rightarrow> string option" where
  "body_bytes b =
     (case b of
        None \<Rightarrow> None
      | Some (BodyStream x) \<Rightarrow> Some x
      | Some (BodyText t) \<Rightarrow> Some t)"

definition reason_phrase :: "nat \<Rightarrow> string" where
  "reason_phrase code =
     (case map_of
             [(200, ''OK''), (201, ''Created''), (204, ''No Content''),
              (301, ''Moved Permanently''), (302, ''Found''), (304, ''Not Modified''),
              (400, ''Bad Request''), (401, ''Unauthorized''), (403, ''Forbidden''),
              (404, ''Not Found''), (500, ''Internal Server Error''),
              (502, ''Bad Gateway''), (503, ''Service Unavailable'')] code of
        None \<Rightarrow> []
      | Some t \<Rightarrow> t)"

definition construct_response :: "body_init option \<Rightarrow> response_init \<Rightarrow> response" where
  "construct_response b init =
     (let hs = (case init_headers init of None \<Rightarrow> [] | Some h \<Rightarrow> h);
          code = (case init_status init of None \<Rightarrow> 200 | Some n \<Rightarrow> n) in
      \<lparr>status = code,
       statusText = (case init_statusText init of None \<Rightarrow> reason_phrase code | Some t \<Rightarrow> t),
       headers =
         (case body_type b of
            None \<Rightarrow> hs
          | Some ty \<Rightarrow>
              if headers_has hs ''Content-Type'' then hs else hs @ [(''Content-Type'', ty)]),
       body = body_bytes b\<rparr>)"

definition new_Response ::
  "body_init option \<Rightarrow> response_init \<Rightarrow> 'w state \<Rightarrow> ref \<times> 'w state" where
  "new_Response b init s = alloc (construct_response b init) s"

text \<open>\<^verbatim>\<open>r.headers.set(name, value)\<close> on the object under reference \<open>r\<close>.\<close>

definition set_header_of :: "ref \<Rightarrow> string \<Rightarrow> string \<Rightarrow> 'w state \<Rightarrow> 'w state" where
  "set_header_of r name v s =
     s\<lparr>heap := (heap s)(r := (heap s r)\<lparr>headers := headers_set (headers (heap s r)) name v\<rparr>)\<rparr>"

subsection \<open>The handler\<close>

text \<open>The policy is the concatenation of eight literals, as in the source.\<close>

definition quoted :: "string \<Rightarrow> string" where
  "quoted s = CHR 0x27 # s @ [CHR 0x27]"

definition csp_value :: string where
  "csp_value =
     ''default-src '' @ quoted ''self'' @ ''; '' @
     ''script-src '' @ quoted ''self'' @ '' '' @ quoted ''unsafe-eval'' @ '' '' @
       quoted ''unsafe-inline'' @ '' data: blob:; '' @
     ''style-src '' @ quoted ''self'' @ '' '' @ quoted ''unsafe-inline'' @ '' data:; '' @
     ''worker-src '' @ quoted ''self'' @ '' blob:; '' @
     ''child-src '' @ quoted ''self'' @ '' blob:; '' @
     ''font-src '' @ quoted ''self'' @ '' data:; '' @
     ''img-src '' @ quoted ''self'' @ '' data: blob:; '' @
     ''connect-src '' @ quoted ''self'' @ '' ws: wss: https:;''"

text \<open>
  \<^verbatim>\<open>response.headers.get('content-type')?.includes('text/html')\<close>: false when the
  header is absent, otherwise the case-sensitive substring test on its value.
\<close>

definition is_html :: "response \<Rightarrow> bool" where
  "is_html r =
     (case headers_get (headers r) ''content-type'' of
        None \<Rightarrow> False
      | Some v \<Rightarrow> str_includes v ''text/html'')"

text \<open>
  The HTML branch: a new Response from the body, status, status text and headers of the
  asset response, then the policy header set on the new object.
\<close>

definition rewrite_html :: "ref \<Rightarrow> 'w state \<Rightarrow> ref \<times> 'w state" where
  "rewrite_html response s =
     (case new_Response (map_option BodyStream (body (heap s response)))
             \<lparr>init_status = Some (status (heap s response)),
              init_statusText = Some (statusText (heap s response)),
              init_headers = Some (headers (heap s response))\<rparr> s of
        (newResponse, s1) \<Rightarrow>
          (newResponse, set_header_of newResponse ''Content-Security-Policy'' csp_value s1))"

text \<open>
  The asset branch. \<^verbatim>\<open>await\<close> outside any \<^verbatim>\<open>try\<close>: a throw or a rejection of the
  binding rejects the handler's promise, a promise that never settles leaves it pending.
\<close>

definition serve_asset :: "'w env \<Rightarrow> request \<Rightarrow> 'w state \<Rightarrow> ref promise \<times> 'w state" where
  "serve_asset env request s =
     (case call_ASSETS_fetch env request s of
        (Throw e, s1) \<Rightarrow> (Rejected e, s1)
      | (Normal (Rejected e), s1) \<Rightarrow> (Rejected e, s1)
      | (Normal Pending, s1) \<Rightarrow> (Pending, s1)
      | (Normal (Fulfilled response), s1) \<Rightarrow>
          if is_html (heap s1 response)
          then (case rewrite_html response s1 of (newResponse, s2) \<Rightarrow> (Fulfilled newResponse, s2))
          else (Fulfilled response, s1))"

text \<open>
  The body of the \<^verbatim>\<open>try\<close> block: \<^verbatim>\<open>createApp(env)\<close>, then
  \<^verbatim>\<open>return app.fetch(request, env, ctx)\<close>. The returned value is not awaited: the block
  completes with whatever \<^verbatim>\<open>app.fetch\<close> returned, plain value or promise, and it
  throws only when one of the two calls throws.
\<close>

definition api_try ::
  "'w deps \<Rightarrow> request \<Rightarrow> 'w env \<Rightarrow> execution_context \<Rightarrow> 'w state \<Rightarrow>
     ref awaitable completion \<times> 'w state" where
  "api_try im request env ctx s =
     (case call_createApp im env s of
        (Throw e, s1) \<Rightarrow> (Throw e, s1)
      | (Normal app, s1) \<Rightarrow> call_app_fetch app request env ctx s1)"

text \<open>The \<^verbatim>\<open>catch\<close> block: one \<^verbatim>\<open>console.error\<close>, then a new Response.\<close>

definition api_catch :: "js_error \<Rightarrow> 'w state \<Rightarrow> ref promise \<times> 'w state" where
  "api_catch error s =
     (case new_Response (Some (BodyText ''API Error''))
             \<lparr>init_status = Some 500, init_statusText = None, init_headers = None\<rparr>
             (console_error ''API request failed:'' error s) of
        (r, s1) \<Rightarrow> (Fulfilled r, s1))"

definition serve_api ::
  "'w deps \<Rightarrow> request \<Rightarrow> 'w env \<Rightarrow> execution_context \<Rightarrow> 'w state \<Rightarrow>
     ref promise \<times> 'w state" where
  "serve_api im request env ctx s =
     (case api_try im request env ctx s of
        (Normal a, s1) \<Rightarrow> (resolve_with a, s1)
      | (Throw error, s1) \<Rightarrow> api_catch error s1)"

text \<open>
  \<^verbatim>\<open>worker.fetch\<close>. The result is what becomes of the promise the async function
  returns, with the state after the run.
\<close>

definition worker_fetch ::
  "'w deps \<Rightarrow> request \<Rightarrow> 'w env \<Rightarrow> execution_context \<Rightarrow> 'w state \<Rightarrow>
     ref promise \<times> 'w state" where
  "worker_fetch im request env ctx s =
     (case new_URL im (req_url request) of
        Throw e \<Rightarrow> (Rejected e, s)
      | Normal u \<Rightarrow>
          if \<not> startsWith (pathname u) ''/api/''
          then serve_asset env request s
          else serve_api im request env ctx s)"

subsection \<open>What a run did and what it answered\<close>

text \<open>
  The events a run appended to the trace, and the gateway's answer as a value: the
  Response the returned reference stands for in the final store.
\<close>

definition events_of ::
  "'w deps \<Rightarrow> request \<Rightarrow> 'w env \<Rightarrow> execution_context \<Rightarrow> 'w state \<Rightarrow> event list" where
  "events_of im request env ctx s =
     drop (length (trace s)) (trace (snd (worker_fetch im request env ctx s)))"

fun response_of :: "ref promise \<times> 'w state \<Rightarrow> response promise" where
  "response_of (Fulfilled r, s) = Fulfilled (heap s r)"
| "response_of (Rejected e, s) = Rejected e"
| "response_of (Pending, s) = Pending"

fun is_asset_call :: "event \<Rightarrow> bool" where
  "is_asset_call (AssetsFetch q) = True"
| "is_asset_call e = False"

fun is_app_call :: "event \<Rightarrow> bool" where
  "is_app_call CreateApp = True"
| "is_app_call (AppFetch q c) = True"
| "is_app_call e = False"

fun is_log :: "event \<Rightarrow> bool" where
  "is_log (ConsoleError l e) = True"
| "is_log e = False"

text \<open>
  What the sub-application answers to a request in a world: \<^verbatim>\<open>createApp(env)\<close> followed
  by \<^verbatim>\<open>app.fetch(request, env, ctx)\<close>, as one completion.
\<close>

definition dispatch_answer ::
  "'w deps \<Rightarrow> request \<Rightarrow> 'w env \<Rightarrow> execution_context \<Rightarrow> 'w \<Rightarrow> response awaitable completion"
  where
  "dispatch_answer im request env ctx w =
     (case createApp im env w of
        (Throw e, w1) \<Rightarrow> Throw e
      | (Normal app, w1) \<Rightarrow> fst (app request env ctx w1))"

text \<open>
  The collaborator of the request's branch produces a response: the asset binding's
  promise is fulfilled; the sub-application returns a response or a promise that is
  fulfilled with one, or it throws (the handler then substitutes a response).
\<close>

definition asset_responds :: "'w env \<Rightarrow> request \<Rightarrow> 'w \<Rightarrow> bool" where
  "asset_responds env request w =
     (case fst (ASSETS env request w) of
        Normal (Fulfilled r) \<Rightarrow> True
      | Normal (Rejected e) \<Rightarrow> False
      | Normal Pending \<Rightarrow> False
      | Throw e \<Rightarrow> False)"

definition app_responds ::
  "'w deps \<Rightarrow> request \<Rightarrow> 'w env \<Rightarrow> execution_context \<Rightarrow> 'w \<Rightarrow> bool" where
  "app_responds im request env ctx w =
     (case dispatch_answer im request env ctx w of
        Throw e \<Rightarrow> True
      | Normal (Plain r) \<Rightarrow> True
      | Normal (Promise (Fulfilled r)) \<Rightarrow> True
      | Normal (Promise (Rejected e)) \<Rightarrow> False
      | Normal (Promise Pending) \<Rightarrow> False)"

text \<open>
  The spec's reading of the HTML test, for comparison with \<open>is_html\<close>: a substring match
  that ignores letter case.
\<close>

definition includes_ignoring_case :: "string \<Rightarrow> string \<Rightarrow> bool" where
  "includes_ignoring_case v t = str_includes (lowercase v) (lowercase t)"

text \<open>The response the \<^verbatim>\<open>catch\<close> block builds.\<close>

definition api_error_response :: response where
  "api_error_response =
     construct_response (Some (BodyText ''API Error''))
       \<lparr>init_status = Some 500, init_statusText = None, init_headers = None\<rparr>"

subsection \<open>Scenarios\<close>

text \<open>
  Concrete collaborators for the examples: a URL parser for the origin
  \<^verbatim>\<open>https://example.com\<close> (no query), an asset binding and an application that give a
  fixed answer and count their calls in the world, and an empty store.
\<close>

definition example_URL :: "string \<Rightarrow> url completion" where
  "example_URL s =
     (if startsWith s ''https://example.com/''
      then Normal \<lparr>href = s, pathname = drop 19 s, search = []\<rparr>
      else Throw (TypeError ''Invalid URL''))"

definition get_request :: "string \<Rightarrow> request" where
  "get_request path =
     \<lparr>req_method = ''GET'', req_url = ''https://example.com'' @ path,
      req_headers = [], req_body = None\<rparr>"

definition assets_answering :: "response promise completion \<Rightarrow> nat env" where
  "assets_answering a = \<lparr>ASSETS = (\<lambda>q w. (a, Suc w))\<rparr>"

definition app_answering :: "response awaitable completion \<Rightarrow> nat app" where
  "app_answering a = (\<lambda>q e c w. (a, Suc w))"

definition deps_answering :: "response awaitable completion \<Rightarrow> nat deps" where
  "deps_answering a =
     \<lparr>new_URL = example_URL, createApp = (\<lambda>e w. (Normal (app_answering a), Suc w))\<rparr>"

definition deps_failing :: "js_error \<Rightarrow> nat deps" where
  "deps_failing e = \<lparr>new_URL = example_URL, createApp = (\<lambda>env w. (Throw e, Suc w))\<rparr>"

definition empty_state :: "nat state" where
  "empty_state =
     \<lparr>heap = (\<lambda>r. \<lparr>status = 0, statusText = [], headers = [], body = None\<rparr>),
      next_ref = 0, trace = [], world = 0\<rparr>"

definition index_html :: response where
  "index_html =
     \<lparr>status = 200, statusText = ''OK'',
      headers = [(''content-type'', ''text/html; charset=utf-8''), (''etag'', ''abc'')],
      body = Some ''<html>...''\<rparr>"

definition app_js :: response where
  "app_js =
     \<lparr>status = 200, statusText = ''OK'',
      headers = [(''content-type'', ''application/javascript'')],
      body = Some ''console.log(1)''\<rparr>"

definition upper_html :: response where
  "upper_html =
     \<lparr>status = 200, statusText = ''OK'',
      headers = [(''Content-Type'', ''TEXT/HTML'')],
      body = Some ''<html>...''\<rparr>"

definition json_ok :: response where
  "json_ok =
     \<lparr>status = 200, statusText = ''OK'',
      headers = [(''content-type'', ''application/json'')],
      body = Some ''{}''\<rparr>"

definition guarded_html :: response where
  "guarded_html =
     \<lparr>status = 200, statusText = ''OK'',
      headers = [(''content-type'', ''text/html''),
                 (''content-security-policy'', ''default-src https:''),
                 (''etag'', ''abc'')],
      body = Some ''<html>...''\<rparr>"

definition bare_not_found :: response where
  "bare_not_found = \<lparr>status = 404, statusText = ''Not Found'', headers = [], body = None\<rparr>"

section \<open>Header lists\<close>

text \<open>
  Setting a header leaves exactly one header of that name, with the new value, and keeps
  every header of another name, in order. Names are compared without regard to case.
\<close>

lemma same_name_refl: "same_name n n"
  by (simp add: same_name_def)

lemma same_name_sym: "same_name a b \<Longrightarrow> same_name b a"
  by (simp add: same_name_def)

lemma same_name_trans: "same_name a b \<Longrightarrow> same_name b c \<Longrightarrow> same_name a c"
  by (simp add: same_name_def)

lemma values_of_Cons:
  "values_of (h # hs) m = (if same_name (fst h) m then snd h # values_of hs m else values_of hs m)"
  by (simp add: values_of_def)

lemma values_of_append: "values_of (hs @ ks) m = values_of hs m @ values_of ks m"
  by (simp add: values_of_def)

lemma values_of_removed:
  "same_name m n \<Longrightarrow> values_of (filter (\<lambda>k. \<not> same_name (fst k) n) hs) m = []"
proof (induction hs)
  case Nil
  show ?case by (simp add: values_of_def)
next
  case (Cons h hs)
  have "same_name (fst h) m \<Longrightarrow> same_name (fst h) n"
    using Cons.prems by (rule same_name_trans[rotated])
  with Cons show ?case by (auto simp: values_of_Cons)
qed

lemma values_of_kept:
  "\<not> same_name m n \<Longrightarrow> values_of (filter (\<lambda>k. \<not> same_name (fst k) n) hs) m = values_of hs m"
proof (induction hs)
  case Nil
  show ?case by simp
next
  case (Cons h hs)
  have "same_name (fst h) m \<Longrightarrow> \<not> same_name (fst h) n"
    using Cons.prems by (auto simp: same_name_def)
  with Cons show ?case by (auto simp: values_of_Cons)
qed

lemma values_of_set_first_same:
  "same_name m n \<Longrightarrow> values_of hs n \<noteq> [] \<Longrightarrow> values_of (set_first n v hs) m = [v]"
proof (induction hs)
  case Nil
  then show ?case by (simp add: values_of_def)
next
  case (Cons h hs)
  show ?case
  proof (cases "same_name (fst h) n")
    case True
    then have "same_name (fst h) m"
      using Cons.prems(1) by (auto simp: same_name_def)
    with True Cons.prems(1) show ?thesis
      by (simp add: values_of_Cons values_of_removed)
  next
    case False
    then have "\<not> same_name (fst h) m"
      using Cons.prems(1) by (auto simp: same_name_def)
    moreover have "values_of hs n \<noteq> []"
      using Cons.prems(2) False by (simp add: values_of_Cons)
    ultimately show ?thesis
      using False Cons.IH Cons.prems(1) by (simp add: values_of_Cons)
  qed
qed

lemma values_of_set_first_other:
  "\<not> same_name m n \<Longrightarrow> values_of (set_first n v hs) m = values_of hs m"
proof (induction hs)
  case Nil
  show ?case by simp
next
  case (Cons h hs)
  show ?case
  proof (cases "same_name (fst h) n")
    case True
    then have "\<not> same_name (fst h) m"
      using Cons.prems by (auto simp: same_name_def)
    with True Cons.prems show ?thesis
      by (simp add: values_of_Cons values_of_kept)
  next
    case False
    with Cons show ?thesis by (simp add: values_of_Cons)
  qed
qed

lemma values_of_set_same:
  assumes "same_name m n"
  shows "values_of (headers_set hs n v) m = [v]"
proof (cases "headers_has hs n")
  case True
  with assms show ?thesis
    by (simp add: headers_set_def headers_has_def values_of_set_first_same)
next
  case False
  then have "values_of hs n = []"
    by (simp add: headers_has_def)
  then have "values_of hs m = []"
    using assms by (simp add: values_of_def same_name_def)
  with assms False show ?thesis
    by (simp add: headers_set_def values_of_append values_of_Cons same_name_sym)
       (simp add: values_of_def)
qed

lemma headers_get_set_same:
  "same_name m n \<Longrightarrow> headers_get (headers_set hs n v) m = Some v"
  by (simp add: headers_get_def values_of_set_same)

lemma headers_get_set_other:
  "\<not> same_name m n \<Longrightarrow> headers_get (headers_set hs n v) m = headers_get hs m"
  by (simp add: headers_get_def headers_set_def values_of_set_first_other values_of_append
      values_of_Cons same_name_def)
     (simp add: values_of_def)

lemma others_kept_set_first:
  "filter (\<lambda>h. \<not> same_name (fst h) n) (set_first n v hs) = filter (\<lambda>h. \<not> same_name (fst h) n) hs"
  by (induction hs) auto

lemma others_kept:
  "filter (\<lambda>h. \<not> same_name (fst h) n) (headers_set hs n v) = filter (\<lambda>h. \<not> same_name (fst h) n) hs"
  by (simp add: headers_set_def others_kept_set_first same_name_refl)

section \<open>The paths of the handler\<close>

text \<open>
  One equation for each way through the handler, with the final state written out, then
  the answer and the events of a run as functions of what the collaborators answered.
\<close>

lemma fetch_bad_url:
  "new_URL im (req_url request) = Throw e \<Longrightarrow>
   worker_fetch im request env ctx s = (Rejected e, s)"
  by (simp add: worker_fetch_def)

lemma fetch_asset:
  assumes "new_URL im (req_url request) = Normal u"
    and "\<not> startsWith (pathname u) ''/api/''"
  shows "worker_fetch im request env ctx s = serve_asset env request s"
  using assms by (simp add: worker_fetch_def)

lemma fetch_api:
  assumes "new_URL im (req_url request) = Normal u"
    and "startsWith (pathname u) ''/api/''"
  shows "worker_fetch im request env ctx s = serve_api im request env ctx s"
  using assms by (simp add: worker_fetch_def)

lemma serve_asset_plain:
  assumes "ASSETS env request (world s) = (Normal (Fulfilled r), w)"
    and "\<not> is_html r"
  shows "serve_asset env request s =
    (Fulfilled (next_ref s),
     s\<lparr>heap := (heap s)(next_ref s := r), next_ref := Suc (next_ref s),
       trace := trace s @ [AssetsFetch request], world := w\<rparr>)"
  using assms
  by (simp add: serve_asset_def call_ASSETS_fetch_def emit_def alloc_def)

lemma body_bytes_stream: "body_bytes (map_option BodyStream b) = b"
  by (cases b) (simp_all add: body_bytes_def)

lemma body_type_stream: "body_type (map_option BodyStream b) = None"
  by (cases b) (simp_all add: body_type_def)

lemma serve_asset_html:
  assumes "ASSETS env request (world s) = (Normal (Fulfilled r), w)"
    and "is_html r"
  shows "serve_asset env request s =
    (Fulfilled (Suc (next_ref s)),
     s\<lparr>heap := (heap s)
         (next_ref s := r,
          Suc (next_ref s) :=
            \<lparr>status = status r, statusText = statusText r,
             headers = headers_set (headers r) ''Content-Security-Policy'' csp_value,
             body = body r\<rparr>),
       next_ref := Suc (Suc (next_ref s)),
       trace := trace s @ [AssetsFetch request], world := w\<rparr>)"
  using assms
  by (simp add: serve_asset_def call_ASSETS_fetch_def emit_def alloc_def rewrite_html_def
      new_Response_def construct_response_def body_type_stream body_bytes_stream
      set_header_of_def)

lemma serve_asset_rejected:
  assumes "ASSETS env request (world s) = (Normal (Rejected e), w)"
  shows "serve_asset env request s =
    (Rejected e, s\<lparr>trace := trace s @ [AssetsFetch request], world := w\<rparr>)"
  using assms by (simp add: serve_asset_def call_ASSETS_fetch_def emit_def)

lemma serve_asset_pending:
  assumes "ASSETS env request (world s) = (Normal Pending, w)"
  shows "serve_asset env request s =
    (Pending, s\<lparr>trace := trace s @ [AssetsFetch request], world := w\<rparr>)"
  using assms by (simp add: serve_asset_def call_ASSETS_fetch_def emit_def)

lemma serve_asset_throw:
  assumes "ASSETS env request (world s) = (Throw e, w)"
  shows "serve_asset env request s =
    (Rejected e, s\<lparr>trace := trace s @ [AssetsFetch request], world := w\<rparr>)"
  using assms by (simp add: serve_asset_def call_ASSETS_fetch_def emit_def)

lemma serve_api_createApp_throws:
  assumes "createApp im env (world s) = (Throw e, w)"
  shows "serve_api im request env ctx s =
    (Fulfilled (next_ref s),
     s\<lparr>heap := (heap s)(next_ref s := api_error_response), next_ref := Suc (next_ref s),
       trace := trace s @ [CreateApp, ConsoleError ''API request failed:'' e], world := w\<rparr>)"
  using assms
  by (simp add: serve_api_def api_try_def call_createApp_def api_catch_def console_error_def
      emit_def alloc_def new_Response_def api_error_response_def)

lemma serve_api_fetch_throws:
  assumes "createApp im env (world s) = (Normal app, w1)"
    and "app request env ctx w1 = (Throw e, w)"
  shows "serve_api im request env ctx s =
    (Fulfilled (next_ref s),
     s\<lparr>heap := (heap s)(next_ref s := api_error_response), next_ref := Suc (next_ref s),
       trace := trace s @ [CreateApp, AppFetch request ctx, ConsoleError ''API request failed:'' e],
       world := w\<rparr>)"
  using assms
  by (simp add: serve_api_def api_try_def call_createApp_def call_app_fetch_def api_catch_def
      console_error_def emit_def alloc_def new_Response_def api_error_response_def)

lemma serve_api_plain:
  assumes "createApp im env (world s) = (Normal app, w1)"
    and "app request env ctx w1 = (Normal (Plain r), w)"
  shows "serve_api im request env ctx s =
    (Fulfilled (next_ref s),
     s\<lparr>heap := (heap s)(next_ref s := r), next_ref := Suc (next_ref s),
       trace := trace s @ [CreateApp, AppFetch request ctx], world := w\<rparr>)"
  using assms
  by (simp add: serve_api_def api_try_def call_createApp_def call_app_fetch_def emit_def alloc_def)

lemma serve_api_fulfilled:
  assumes "createApp im env (world s) = (Normal app, w1)"
    and "app request env ctx w1 = (Normal (Promise (Fulfilled r)), w)"
  shows "serve_api im request env ctx s =
    (Fulfilled (next_ref s),
     s\<lparr>heap := (heap s)(next_ref s := r), next_ref := Suc (next_ref s),
       trace := trace s @ [CreateApp, AppFetch request ctx], world := w\<rparr>)"
  using assms
  by (simp add: serve_api_def api_try_def call_createApp_def call_app_fetch_def emit_def alloc_def)

lemma serve_api_rejected:
  assumes "createApp im env (world s) = (Normal app, w1)"
    and "app request env ctx w1 = (Normal (Promise (Rejected e)), w)"
  shows "serve_api im request env ctx s =
    (Rejected e, s\<lparr>trace := trace s @ [CreateApp, AppFetch request ctx], world := w\<rparr>)"
  using assms
  by (simp add: serve_api_def api_try_def call_createApp_def call_app_fetch_def emit_def)

lemma serve_api_pending:
  assumes "createApp im env (world s) = (Normal app, w1)"
    and "app request env ctx w1 = (Normal (Promise Pending), w)"
  shows "serve_api im request env ctx s =
    (Pending, s\<lparr>trace := trace s @ [CreateApp, AppFetch request ctx], world := w\<rparr>)"
  using assms
  by (simp add: serve_api_def api_try_def call_createApp_def call_app_fetch_def emit_def)

lemma api_error_response_eq:
  "api_error_response =
     \<lparr>status = 500, statusText = ''Internal Server Error'',
      headers = [(''Content-Type'', ''text/plain;charset=UTF-8'')],
      body = Some ''API Error''\<rparr>"
  by (simp add: api_error_response_def construct_response_def reason_phrase_def body_type_def
      body_bytes_def headers_has_def values_of_def)

lemma serve_asset_trace: "trace (snd (serve_asset env q s)) = trace s @ [AssetsFetch q]"
proof -
  obtain a w where aw: "ASSETS env q (world s) = (a, w)"
    by (cases "ASSETS env q (world s)")
  show ?thesis
  proof (cases a)
    case (Throw e)
    with aw show ?thesis by (simp add: serve_asset_throw)
  next
    case (Normal p)
    show ?thesis
    proof (cases p)
      case (Fulfilled r)
      with aw Normal show ?thesis
        by (cases "is_html r") (simp_all add: serve_asset_html serve_asset_plain)
    next
      case (Rejected e)
      with aw Normal show ?thesis by (simp add: serve_asset_rejected)
    next
      case Pending
      with aw Normal show ?thesis by (simp add: serve_asset_pending)
    qed
  qed
qed

lemma serve_asset_answer:
  "response_of (serve_asset env q s) =
     (case fst (ASSETS env q (world s)) of
        Throw e \<Rightarrow> Rejected e
      | Normal (Rejected e) \<Rightarrow> Rejected e
      | Normal Pending \<Rightarrow> Pending
      | Normal (Fulfilled r) \<Rightarrow>
          Fulfilled
            (if is_html r
             then \<lparr>status = status r, statusText = statusText r,
                   headers = headers_set (headers r) ''Content-Security-Policy'' csp_value,
                   body = body r\<rparr>
             else r))"
proof -
  obtain a w where aw: "ASSETS env q (world s) = (a, w)"
    by (cases "ASSETS env q (world s)")
  show ?thesis
  proof (cases a)
    case (Throw e)
    with aw show ?thesis by (simp add: serve_asset_throw)
  next
    case (Normal p)
    show ?thesis
    proof (cases p)
      case (Fulfilled r)
      with aw Normal show ?thesis
        by (cases "is_html r") (simp_all add: serve_asset_html serve_asset_plain)
    next
      case (Rejected e)
      with aw Normal show ?thesis by (simp add: serve_asset_rejected)
    next
      case Pending
      with aw Normal show ?thesis by (simp add: serve_asset_pending)
    qed
  qed
qed

lemma serve_api_answer:
  "response_of (serve_api im q env c s) =
     (case dispatch_answer im q env c (world s) of
        Throw e \<Rightarrow> Fulfilled api_error_response
      | Normal (Plain r) \<Rightarrow> Fulfilled r
      | Normal (Promise p) \<Rightarrow> p)"
proof -
  obtain k w1 where k: "createApp im env (world s) = (k, w1)"
    by (cases "createApp im env (world s)")
  show ?thesis
  proof (cases k)
    case (Throw e)
    with k show ?thesis by (simp add: serve_api_createApp_throws dispatch_answer_def)
  next
    case (Normal app)
    obtain a w where a: "app q env c w1 = (a, w)"
      by (cases "app q env c w1")
    show ?thesis
    proof (cases a)
      case (Throw e)
      with k Normal a show ?thesis
        by (simp add: serve_api_fetch_throws dispatch_answer_def)
    next
      case inner: (Normal b)
      show ?thesis
      proof (cases b)
        case (Plain r)
        with k Normal a inner show ?thesis
          by (simp add: serve_api_plain dispatch_answer_def)
      next
        case (Promise p)
        with k Normal a inner show ?thesis
          by (cases p)
             (simp_all add: serve_api_fulfilled serve_api_rejected serve_api_pending
               dispatch_answer_def)
      qed
    qed
  qed
qed

lemma serve_api_trace:
  "trace (snd (serve_api im q env c s)) =
     trace s @
     (case createApp im env (world s) of
        (Throw e, w) \<Rightarrow> [CreateApp, ConsoleError ''API request failed:'' e]
      | (Normal app, w1) \<Rightarrow>
          (case fst (app q env c w1) of
             Throw e \<Rightarrow> [CreateApp, AppFetch q c, ConsoleError ''API request failed:'' e]
           | Normal a \<Rightarrow> [CreateApp, AppFetch q c]))"
proof -
  obtain k w1 where k: "createApp im env (world s) = (k, w1)"
    by (cases "createApp im env (world s)")
  show ?thesis
  proof (cases k)
    case (Throw e)
    with k show ?thesis by (simp add: serve_api_createApp_throws)
  next
    case (Normal app)
    obtain a w where a: "app q env c w1 = (a, w)"
      by (cases "app q env c w1")
    show ?thesis
    proof (cases a)
      case (Throw e)
      with k Normal a show ?thesis
        by (simp add: serve_api_fetch_throws)
    next
      case inner: (Normal b)
      show ?thesis
      proof (cases b)
        case (Plain r)
        with k Normal a inner show ?thesis
          by (simp add: serve_api_plain)
      next
        case (Promise p)
        with k Normal a inner show ?thesis
          by (cases p)
             (simp_all add: serve_api_fulfilled serve_api_rejected serve_api_pending)
      qed
    qed
  qed
qed

lemma events_of_asset:
  assumes "new_URL im (req_url q) = Normal u" and "\<not> startsWith (pathname u) ''/api/''"
  shows "events_of im q env c s = [AssetsFetch q]"
  using assms by (simp add: events_of_def fetch_asset serve_asset_trace)

lemma events_of_api:
  assumes "new_URL im (req_url q) = Normal u" and "startsWith (pathname u) ''/api/''"
  shows "events_of im q env c s =
     (case createApp im env (world s) of
        (Throw e, w) \<Rightarrow> [CreateApp, ConsoleError ''API request failed:'' e]
      | (Normal app, w1) \<Rightarrow>
          (case fst (app q env c w1) of
             Throw e \<Rightarrow> [CreateApp, AppFetch q c, ConsoleError ''API request failed:'' e]
           | Normal a \<Rightarrow> [CreateApp, AppFetch q c]))"
  using assms by (simp add: events_of_def fetch_api serve_api_trace)

lemma api_events_shape:
  "\<exists>rest.
     (case createApp im env (world s) of
        (Throw e, w) \<Rightarrow> [CreateApp, ConsoleError ''API request failed:'' e]
      | (Normal app, w1) \<Rightarrow>
          (case fst (app q env c w1) of
             Throw e \<Rightarrow> [CreateApp, AppFetch q c, ConsoleError ''API request failed:'' e]
           | Normal a \<Rightarrow> [CreateApp, AppFetch q c])) = CreateApp # rest \<and>
     filter is_asset_call rest = []"
  by (simp split: prod.splits completion.splits)


lemma worker_fetch_answer:
  "response_of (worker_fetch im q env c s) =
     (case new_URL im (req_url q) of
        Throw e \<Rightarrow> Rejected e
      | Normal u \<Rightarrow>
          if \<not> startsWith (pathname u) ''/api/''
          then response_of (serve_asset env q s)
          else response_of (serve_api im q env c s))"
  by (simp add: worker_fetch_def split: completion.splits)

lemma serve_asset_world:
  "world (snd (serve_asset env q s)) = snd (ASSETS env q (world s))"
proof -
  obtain a w where aw: "ASSETS env q (world s) = (a, w)"
    by (cases "ASSETS env q (world s)")
  show ?thesis
  proof (cases a)
    case (Throw e)
    with aw show ?thesis by (simp add: serve_asset_throw)
  next
    case (Normal p)
    show ?thesis
    proof (cases p)
      case (Fulfilled r)
      with aw Normal show ?thesis
        by (cases "is_html r") (simp_all add: serve_asset_html serve_asset_plain)
    next
      case (Rejected e)
      with aw Normal show ?thesis by (simp add: serve_asset_rejected)
    next
      case Pending
      with aw Normal show ?thesis by (simp add: serve_asset_pending)
    qed
  qed
qed

lemma serve_api_world:
  "world (snd (serve_api im q env c s)) =
     (case createApp im env (world s) of
        (Throw e, w) \<Rightarrow> w
      | (Normal app, w1) \<Rightarrow> snd (app q env c w1))"
proof -
  obtain k w1 where k: "createApp im env (world s) = (k, w1)"
    by (cases "createApp im env (world s)")
  show ?thesis
  proof (cases k)
    case (Throw e)
    with k show ?thesis by (simp add: serve_api_createApp_throws)
  next
    case (Normal app)
    obtain a w where a: "app q env c w1 = (a, w)"
      by (cases "app q env c w1")
    show ?thesis
    proof (cases a)
      case (Throw e)
      with k Normal a show ?thesis
        by (simp add: serve_api_fetch_throws)
    next
      case inner: (Normal b)
      show ?thesis
      proof (cases b)
        case (Plain r)
        with k Normal a inner show ?thesis
          by (simp add: serve_api_plain)
      next
        case (Promise p)
        with k Normal a inner show ?thesis
          by (cases p)
             (simp_all add: serve_api_fulfilled serve_api_rejected serve_api_pending)
      qed
    qed
  qed
qed

lemma csp_value_literal:
  "csp_value =
     ''default-src '' @ [CHR 0x27] @ ''self'' @ [CHR 0x27] @ ''; script-src '' @
     [CHR 0x27] @ ''self'' @ [CHR 0x27] @ '' '' @ [CHR 0x27] @ ''unsafe-eval'' @
     [CHR 0x27] @ '' '' @ [CHR 0x27] @ ''unsafe-inline'' @ [CHR 0x27] @
     '' data: blob:; style-src '' @ [CHR 0x27] @ ''self'' @ [CHR 0x27] @ '' '' @
     [CHR 0x27] @ ''unsafe-inline'' @ [CHR 0x27] @ '' data:; worker-src '' @
     [CHR 0x27] @ ''self'' @ [CHR 0x27] @ '' blob:; child-src '' @ [CHR 0x27] @
     ''self'' @ [CHR 0x27] @ '' blob:; font-src '' @ [CHR 0x27] @ ''self'' @
     [CHR 0x27] @ '' data:; img-src '' @ [CHR 0x27] @ ''self'' @ [CHR 0x27] @
     '' data: blob:; connect-src '' @ [CHR 0x27] @ ''self'' @ [CHR 0x27] @
     '' ws: wss: https:;''"
  by (simp add: csp_value_def quoted_def)

text \<open>
  On every path but two the handler's promise is fulfilled with a Response of the run:
  whenever the asset binding's promise is fulfilled, and whenever the sub-application
  returns a response or a promise fulfilled with one, or throws. The two other paths are
  a promise of a collaborator that is rejected and one that never settles.
\<close>

lemma fulfilled_when_collaborator_responds:
  assumes "new_URL im (req_url request) = Normal u"
    and "if startsWith (pathname u) ''/api/''
         then app_responds im request env ctx (world s)
         else asset_responds env request (world s)"
  shows "\<exists>ref s'. worker_fetch im request env ctx s = (Fulfilled ref, s') \<and>
           next_ref s \<le> ref \<and> ref < next_ref s'"
proof (cases "startsWith (pathname u) ''/api/''")
  case False
  with assms(2) have "asset_responds env request (world s)"
    by simp
  then obtain r w where a: "ASSETS env request (world s) = (Normal (Fulfilled r), w)"
    by (cases "ASSETS env request (world s)")
       (auto simp: asset_responds_def split: completion.splits promise.splits)
  show ?thesis
    by (cases "is_html r")
       (simp_all add: fetch_asset[OF assms(1) False] serve_asset_html[OF a]
         serve_asset_plain[OF a])
next
  case True
  with assms(2) have responds: "app_responds im request env ctx (world s)"
    by simp
  obtain k w1 where k: "createApp im env (world s) = (k, w1)"
    by (cases "createApp im env (world s)")
  show ?thesis
  proof (cases k)
    case (Throw e)
    with k show ?thesis
      by (simp add: fetch_api[OF assms(1) True] serve_api_createApp_throws)
  next
    case (Normal app)
    obtain a w where a: "app request env ctx w1 = (a, w)"
      by (cases "app request env ctx w1")
    show ?thesis
    proof (cases a)
      case (Throw e)
      with k Normal a show ?thesis
        by (simp add: fetch_api[OF assms(1) True] serve_api_fetch_throws)
    next
      case inner: (Normal b)
      show ?thesis
      proof (cases b)
        case (Plain r)
        with k Normal a inner show ?thesis
          by (simp add: fetch_api[OF assms(1) True] serve_api_plain)
      next
        case (Promise p)
        with responds k Normal a inner obtain r where "p = Fulfilled r"
          by (cases p) (auto simp: app_responds_def dispatch_answer_def)
        with k Normal a inner Promise show ?thesis
          by (simp add: fetch_api[OF assms(1) True] serve_api_fulfilled)
      qed
    qed
  qed
qed

section \<open>The properties of the specification\<close>

text \<open>
  The claims of the specification in their order. The unfolding rules of the scenarios
  and of the header lists evaluate the concrete runs.
\<close>

lemmas scenario_defs = example_URL_def get_request_def assets_answering_def app_answering_def
  deps_answering_def deps_failing_def empty_state_def index_html_def app_js_def upper_html_def
  json_ok_def guarded_html_def bare_not_found_def

lemmas header_defs = headers_get_def headers_set_def headers_has_def values_of_def same_name_def
  lowercase_def lower_char_def

text \<open>
  Claim C1 fails on the code for a rejection. The \<^verbatim>\<open>try\<close> block returns the value of
  \<^verbatim>\<open>app.fetch(request, env, ctx)\<close> without awaiting it, so a promise that is rejected
  later is not an exception of the block: the \<^verbatim>\<open>catch\<close> does not run, and the handler's
  own promise is rejected with the same reason. At \<^verbatim>\<open>/api/agent\<close>, with an application
  whose \<^verbatim>\<open>fetch\<close> returns a promise rejected with \<open>boom\<close>, the run ends rejected; no
  Response was made and nothing was logged.
\<close>

theorem C1_rejection_escapes:
  "worker_fetch (deps_answering (Normal (Promise (Rejected (OtherError ''boom'')))))
     (get_request ''/api/agent'') (assets_answering (Normal (Fulfilled app_js)))
     (ExecutionContext 0) empty_state =
   (Rejected (OtherError ''boom''),
    empty_state
      \<lparr>trace := [CreateApp, AppFetch (get_request ''/api/agent'') (ExecutionContext 0)],
       world := 2\<rparr>)"
proof -
  let ?u = "\<lparr>href = ''https://example.com/api/agent'', pathname = ''/api/agent'', search = []\<rparr>"
  let ?im = "deps_answering (Normal (Promise (Rejected (OtherError ''boom''))))"
  have h1: "new_URL ?im (req_url (get_request ''/api/agent'')) = Normal ?u"
    by (simp add: scenario_defs)
  have h2: "startsWith (pathname ?u) ''/api/''"
    by simp
  have k: "createApp ?im (assets_answering (Normal (Fulfilled app_js))) (world empty_state) =
      (Normal (app_answering (Normal (Promise (Rejected (OtherError ''boom''))))), 1)"
    by (simp add: deps_answering_def empty_state_def)
  have a: "app_answering (Normal (Promise (Rejected (OtherError ''boom''))))
      (get_request ''/api/agent'') (assets_answering (Normal (Fulfilled app_js)))
      (ExecutionContext 0) 1 = (Normal (Promise (Rejected (OtherError ''boom''))), 2)"
    by (simp add: app_answering_def)
  show ?thesis
    by (simp add: fetch_api[OF h1 h2] serve_api_rejected[OF k a]) (simp add: empty_state_def)
qed

text \<open>
  Claim C2, as stated: the HTML test ignores letter case, so that a content type
  \<^verbatim>\<open>TEXT/HTML\<close> gets the policy header. The code calls \<^verbatim>\<open>includes('text/html')\<close>
  on the header's value as it stands. At \<^verbatim>\<open>Content-Type: TEXT/HTML\<close> the value
  contains \<^verbatim>\<open>text/html\<close> when case is ignored, and the handler answers with the asset
  response as it was, which has no Content-Security-Policy header.
\<close>

theorem C2_upper_case_html_not_rewritten:
  "headers_get (headers upper_html) ''content-type'' = Some ''TEXT/HTML'' \<and>
   includes_ignoring_case ''TEXT/HTML'' ''text/html'' \<and>
   response_of
     (worker_fetch (deps_answering (Normal (Plain json_ok))) (get_request ''/index.html'')
        (assets_answering (Normal (Fulfilled upper_html))) (ExecutionContext 0) empty_state) =
     Fulfilled upper_html \<and>
   headers_get (headers upper_html) ''Content-Security-Policy'' = None"
proof -
  let ?u = "\<lparr>href = ''https://example.com/index.html'', pathname = ''/index.html'', search = []\<rparr>"
  have h1: "new_URL (deps_answering (Normal (Plain json_ok))) (req_url (get_request ''/index.html'')) =
      Normal ?u"
    by (simp add: scenario_defs)
  have h2: "\<not> startsWith (pathname ?u) ''/api/''"
    by simp
  have ct: "headers_get (headers upper_html) ''content-type'' = Some ''TEXT/HTML''"
    by (simp add: upper_html_def header_defs)
  have ci: "includes_ignoring_case ''TEXT/HTML'' ''text/html''"
    by (simp add: includes_ignoring_case_def lowercase_def lower_char_def)
  have plain: "\<not> is_html upper_html"
    using ct by (simp add: is_html_def)
  have answer: "fst (ASSETS (assets_answering (Normal (Fulfilled upper_html)))
      (get_request ''/index.html'') (world empty_state)) = Normal (Fulfilled upper_html)"
    by (simp add: assets_answering_def)
  have run: "response_of
     (worker_fetch (deps_answering (Normal (Plain json_ok))) (get_request ''/index.html'')
        (assets_answering (Normal (Fulfilled upper_html))) (ExecutionContext 0) empty_state) =
     Fulfilled upper_html"
    using plain answer by (simp add: fetch_asset[OF h1 h2] serve_asset_answer)
  have csp: "headers_get (headers upper_html) ''Content-Security-Policy'' = None"
    by (simp add: upper_html_def header_defs)
  from ct ci run csp show ?thesis
    by simp
qed

text \<open>
  Claim C2, amended. For a request outside \<^verbatim>\<open>/api/\<close> whose asset promise is fulfilled,
  the rewrite is decided by a case-sensitive substring test on the value of the
  \<^verbatim>\<open>content-type\<close> header (the header's name is matched without regard to case): when
  the value contains \<^verbatim>\<open>text/html\<close> in exactly these lower-case letters, the answer is
  the asset response with the Content-Security-Policy header set to the fixed policy;
  when the header is absent or its value has no such substring, the answer is the asset
  response as it was.
\<close>

theorem C2_html_test_case_sensitive:
  assumes "new_URL im (req_url request) = Normal u"
    and "\<not> startsWith (pathname u) ''/api/''"
    and "ASSETS env request (world s) = (Normal (Fulfilled r), w)"
  shows "response_of (worker_fetch im request env ctx s) =
     Fulfilled
       (case headers_get (headers r) ''content-type'' of
          None \<Rightarrow> r
        | Some ct \<Rightarrow>
            if str_includes ct ''text/html''
            then \<lparr>status = status r, statusText = statusText r,
                  headers = headers_set (headers r) ''Content-Security-Policy'' csp_value,
                  body = body r\<rparr>
            else r)"
  using assms(3)
  by (simp add: fetch_asset[OF assms(1,2)] serve_asset_answer is_html_def split: option.splits)

text \<open>The spec's example: a lower-case HTML content type at \<^verbatim>\<open>/index.html\<close> is rewritten.\<close>

theorem C2_html_test_case_sensitive_witness:
  "new_URL (deps_answering (Normal (Plain json_ok))) (req_url (get_request ''/index.html'')) =
     Normal \<lparr>href = ''https://example.com/index.html'', pathname = ''/index.html'', search = []\<rparr> \<and>
   \<not> startsWith ''/index.html'' ''/api/'' \<and>
   ASSETS (assets_answering (Normal (Fulfilled index_html))) (get_request ''/index.html'')
     (world empty_state) = (Normal (Fulfilled index_html), 1) \<and>
   response_of
     (worker_fetch (deps_answering (Normal (Plain json_ok))) (get_request ''/index.html'')
        (assets_answering (Normal (Fulfilled index_html))) (ExecutionContext 0) empty_state) =
     Fulfilled
       \<lparr>status = 200, statusText = ''OK'',
        headers = [(''content-type'', ''text/html; charset=utf-8''), (''etag'', ''abc''),
                   (''Content-Security-Policy'', csp_value)],
        body = Some ''<html>...''\<rparr>"
proof -
  let ?u = "\<lparr>href = ''https://example.com/index.html'', pathname = ''/index.html'', search = []\<rparr>"
  have h1: "new_URL (deps_answering (Normal (Plain json_ok))) (req_url (get_request ''/index.html'')) =
      Normal ?u"
    by (simp add: scenario_defs)
  have h2: "\<not> startsWith (pathname ?u) ''/api/''"
    by simp
  have h3: "ASSETS (assets_answering (Normal (Fulfilled index_html))) (get_request ''/index.html'')
      (world empty_state) = (Normal (Fulfilled index_html), 1)"
    by (simp add: scenario_defs)
  have ct: "headers_get (headers index_html) ''content-type'' = Some ''text/html; charset=utf-8''"
    by (simp add: index_html_def header_defs)
  have set: "headers_set (headers index_html) ''Content-Security-Policy'' csp_value =
      [(''content-type'', ''text/html; charset=utf-8''), (''etag'', ''abc''),
       (''Content-Security-Policy'', csp_value)]"
    by (simp add: index_html_def header_defs)
  have fields: "status index_html = 200" "statusText index_html = ''OK''"
    "body index_html = Some ''<html>...''"
    by (simp_all add: index_html_def)
  from C2_html_test_case_sensitive[OF h1 h2 h3, of "ExecutionContext 0"]
  have "response_of
     (worker_fetch (deps_answering (Normal (Plain json_ok))) (get_request ''/index.html'')
        (assets_answering (Normal (Fulfilled index_html))) (ExecutionContext 0) empty_state) =
     Fulfilled
       \<lparr>status = 200, statusText = ''OK'',
        headers = [(''content-type'', ''text/html; charset=utf-8''), (''etag'', ''abc''),
                   (''Content-Security-Policy'', csp_value)],
        body = Some ''<html>...''\<rparr>"
    using ct set fields by simp
  with h1 h2 h3 show ?thesis
    by simp
qed

text \<open>
  Claim C3. For a request outside \<^verbatim>\<open>/api/\<close> whose asset response has a
  \<^verbatim>\<open>content-type\<close> containing \<^verbatim>\<open>text/html\<close>, the handler's promise is fulfilled
  with a Response that has the status, the status text and the body of the asset
  response, every header of the asset response under another name than
  Content-Security-Policy, in the same order and with the same value, and exactly one
  Content-Security-Policy header: a value the asset response had under that name is
  overwritten. The value of that header is the fixed policy, written out here character
  by character (\<open>CHR 0x27\<close> is the single quote): \<^verbatim>\<open>default-src\<close> self;
  \<^verbatim>\<open>script-src\<close> self, unsafe-eval, unsafe-inline, \<^verbatim>\<open>data:\<close>, \<^verbatim>\<open>blob:\<close>;
  \<^verbatim>\<open>style-src\<close> self, unsafe-inline, \<^verbatim>\<open>data:\<close>; \<^verbatim>\<open>worker-src\<close> and
  \<^verbatim>\<open>child-src\<close> self, \<^verbatim>\<open>blob:\<close>; \<^verbatim>\<open>font-src\<close> self, \<^verbatim>\<open>data:\<close>;
  \<^verbatim>\<open>img-src\<close> self, \<^verbatim>\<open>data:\<close>, \<^verbatim>\<open>blob:\<close>; \<^verbatim>\<open>connect-src\<close> self,
  \<^verbatim>\<open>ws:\<close>, \<^verbatim>\<open>wss:\<close>, \<^verbatim>\<open>https:\<close>.
\<close>

theorem C3_html_response_rewritten:
  assumes "new_URL im (req_url request) = Normal u"
    and "\<not> startsWith (pathname u) ''/api/''"
    and "ASSETS env request (world s) = (Normal (Fulfilled r), w)"
    and "headers_get (headers r) ''content-type'' = Some ct"
    and "str_includes ct ''text/html''"
  shows "\<exists>ref s'. worker_fetch im request env ctx s = (Fulfilled ref, s') \<and>
           status (heap s' ref) = status r \<and>
           statusText (heap s' ref) = statusText r \<and>
           body (heap s' ref) = body r \<and>
           filter (\<lambda>h. \<not> same_name (fst h) ''Content-Security-Policy'') (headers (heap s' ref)) =
             filter (\<lambda>h. \<not> same_name (fst h) ''Content-Security-Policy'') (headers r) \<and>
           (\<forall>name. \<not> same_name name ''Content-Security-Policy'' \<longrightarrow>
              headers_get (headers (heap s' ref)) name = headers_get (headers r) name) \<and>
           values_of (headers (heap s' ref)) ''Content-Security-Policy'' = [csp_value] \<and>
           headers_get (headers (heap s' ref)) ''content-security-policy'' =
             Some (''default-src '' @ [CHR 0x27] @ ''self'' @ [CHR 0x27] @ ''; script-src '' @
                   [CHR 0x27] @ ''self'' @ [CHR 0x27] @ '' '' @ [CHR 0x27] @ ''unsafe-eval'' @
                   [CHR 0x27] @ '' '' @ [CHR 0x27] @ ''unsafe-inline'' @ [CHR 0x27] @
                   '' data: blob:; style-src '' @ [CHR 0x27] @ ''self'' @ [CHR 0x27] @ '' '' @
                   [CHR 0x27] @ ''unsafe-inline'' @ [CHR 0x27] @ '' data:; worker-src '' @
                   [CHR 0x27] @ ''self'' @ [CHR 0x27] @ '' blob:; child-src '' @ [CHR 0x27] @
                   ''self'' @ [CHR 0x27] @ '' blob:; font-src '' @ [CHR 0x27] @ ''self'' @
                   [CHR 0x27] @ '' data:; img-src '' @ [CHR 0x27] @ ''self'' @ [CHR 0x27] @
                   '' data: blob:; connect-src '' @ [CHR 0x27] @ ''self'' @ [CHR 0x27] @
                   '' ws: wss: https:;'')"
proof -
  have html: "is_html r"
    using assms(4,5) by (simp add: is_html_def)
  have same: "same_name ''content-security-policy'' ''Content-Security-Policy''"
    by (simp add: same_name_def lowercase_def lower_char_def)
  have "\<exists>ref s'. worker_fetch im request env ctx s = (Fulfilled ref, s') \<and>
           status (heap s' ref) = status r \<and>
           statusText (heap s' ref) = statusText r \<and>
           body (heap s' ref) = body r \<and>
           filter (\<lambda>h. \<not> same_name (fst h) ''Content-Security-Policy'') (headers (heap s' ref)) =
             filter (\<lambda>h. \<not> same_name (fst h) ''Content-Security-Policy'') (headers r) \<and>
           (\<forall>name. \<not> same_name name ''Content-Security-Policy'' \<longrightarrow>
              headers_get (headers (heap s' ref)) name = headers_get (headers r) name) \<and>
           values_of (headers (heap s' ref)) ''Content-Security-Policy'' = [csp_value] \<and>
           headers_get (headers (heap s' ref)) ''content-security-policy'' = Some csp_value"
    by (simp add: fetch_asset[OF assms(1,2)] serve_asset_html[OF assms(3) html] others_kept
        headers_get_set_other headers_get_set_same[OF same] values_of_set_same[OF same_name_refl])
  then show ?thesis
    unfolding csp_value_literal .
qed

text \<open>
  An HTML page at \<^verbatim>\<open>/index.html\<close> that already carries a policy header: the answer
  keeps status, status text, body and the \<^verbatim>\<open>etag\<close> header, and its one policy header
  has the fixed value, 256 characters long.
\<close>

theorem C3_html_response_rewritten_witness:
  "new_URL (deps_answering (Normal (Plain json_ok))) (req_url (get_request ''/index.html'')) =
     Normal \<lparr>href = ''https://example.com/index.html'', pathname = ''/index.html'', search = []\<rparr> \<and>
   \<not> startsWith ''/index.html'' ''/api/'' \<and>
   ASSETS (assets_answering (Normal (Fulfilled guarded_html))) (get_request ''/index.html'')
     (world empty_state) = (Normal (Fulfilled guarded_html), 1) \<and>
   headers_get (headers guarded_html) ''content-type'' = Some ''text/html'' \<and>
   headers_get (headers guarded_html) ''Content-Security-Policy'' = Some ''default-src https:'' \<and>
   str_includes ''text/html'' ''text/html'' \<and>
   (\<exists>ref s'.
      worker_fetch (deps_answering (Normal (Plain json_ok))) (get_request ''/index.html'')
        (assets_answering (Normal (Fulfilled guarded_html))) (ExecutionContext 0) empty_state =
        (Fulfilled ref, s') \<and>
      status (heap s' ref) = 200 \<and>
      statusText (heap s' ref) = ''OK'' \<and>
      body (heap s' ref) = Some ''<html>...'' \<and>
      headers_get (headers (heap s' ref)) ''etag'' = Some ''abc'' \<and>
      map length (values_of (headers (heap s' ref)) ''Content-Security-Policy'') = [256] \<and>
      headers_get (headers (heap s' ref)) ''content-security-policy'' =
        Some (''default-src '' @ [CHR 0x27] @ ''self'' @ [CHR 0x27] @ ''; script-src '' @
              [CHR 0x27] @ ''self'' @ [CHR 0x27] @ '' '' @ [CHR 0x27] @ ''unsafe-eval'' @
              [CHR 0x27] @ '' '' @ [CHR 0x27] @ ''unsafe-inline'' @ [CHR 0x27] @
              '' data: blob:; style-src '' @ [CHR 0x27] @ ''self'' @ [CHR 0x27] @ '' '' @
              [CHR 0x27] @ ''unsafe-inline'' @ [CHR 0x27] @ '' data:; worker-src '' @
              [CHR 0x27] @ ''self'' @ [CHR 0x27] @ '' blob:; child-src '' @ [CHR 0x27] @
              ''self'' @ [CHR 0x27] @ '' blob:; font-src '' @ [CHR 0x27] @ ''self'' @
              [CHR 0x27] @ '' data:; img-src '' @ [CHR 0x27] @ ''self'' @ [CHR 0x27] @
              '' data: blob:; connect-src '' @ [CHR 0x27] @ ''self'' @ [CHR 0x27] @
              '' ws: wss: https:;''))"
proof -
  let ?u = "\<lparr>href = ''https://example.com/index.html'', pathname = ''/index.html'', search = []\<rparr>"
  have h1: "new_URL (deps_answering (Normal (Plain json_ok))) (req_url (get_request ''/index.html'')) =
      Normal ?u"
    by (simp add: scenario_defs)
  have h2: "\<not> startsWith (pathname ?u) ''/api/''"
    by simp
  have h3: "ASSETS (assets_answering (Normal (Fulfilled guarded_html))) (get_request ''/index.html'')
      (world empty_state) = (Normal (Fulfilled guarded_html), 1)"
    by (simp add: scenario_defs)
  have h4: "headers_get (headers guarded_html) ''content-type'' = Some ''text/html''"
    by (simp add: guarded_html_def header_defs)
  have h5: "str_includes ''text/html'' ''text/html''"
    by simp
  have prior: "headers_get (headers guarded_html) ''Content-Security-Policy'' =
      Some ''default-src https:''"
    by (simp add: guarded_html_def header_defs)
  have etag: "headers_get (headers guarded_html) ''etag'' = Some ''abc''"
    by (simp add: guarded_html_def header_defs)
  have other: "\<not> same_name ''etag'' ''Content-Security-Policy''"
    by (simp add: header_defs)
  have fields: "status guarded_html = 200" "statusText guarded_html = ''OK''"
    "body guarded_html = Some ''<html>...''"
    by (simp_all add: guarded_html_def)
  have len: "length csp_value = 256"
    by (simp add: csp_value_def quoted_def)
  from C3_html_response_rewritten[OF h1 h2 h3 h4 h5, of "ExecutionContext 0"]
  obtain ref s' where run:
    "worker_fetch (deps_answering (Normal (Plain json_ok))) (get_request ''/index.html'')
        (assets_answering (Normal (Fulfilled guarded_html))) (ExecutionContext 0) empty_state =
        (Fulfilled ref, s')"
    "status (heap s' ref) = status guarded_html"
    "statusText (heap s' ref) = statusText guarded_html"
    "body (heap s' ref) = body guarded_html"
    "headers_get (headers (heap s' ref)) ''etag'' = headers_get (headers guarded_html) ''etag''"
    "values_of (headers (heap s' ref)) ''Content-Security-Policy'' = [csp_value]"
    "headers_get (headers (heap s' ref)) ''content-security-policy'' =
        Some (''default-src '' @ [CHR 0x27] @ ''self'' @ [CHR 0x27] @ ''; script-src '' @
              [CHR 0x27] @ ''self'' @ [CHR 0x27] @ '' '' @ [CHR 0x27] @ ''unsafe-eval'' @
              [CHR 0x27] @ '' '' @ [CHR 0x27] @ ''unsafe-inline'' @ [CHR 0x27] @
              '' data: blob:; style-src '' @ [CHR 0x27] @ ''self'' @ [CHR 0x27] @ '' '' @
              [CHR 0x27] @ ''unsafe-inline'' @ [CHR 0x27] @ '' data:; worker-src '' @
              [CHR 0x27] @ ''self'' @ [CHR 0x27] @ '' blob:; child-src '' @ [CHR 0x27] @
              ''self'' @ [CHR 0x27] @ '' blob:; font-src '' @ [CHR 0x27] @ ''self'' @
              [CHR 0x27] @ '' data:; img-src '' @ [CHR 0x27] @ ''self'' @ [CHR 0x27] @
              '' data: blob:; connect-src '' @ [CHR 0x27] @ ''self'' @ [CHR 0x27] @
              '' ws: wss: https:;'')"
    using other by blast
  have "worker_fetch (deps_answering (Normal (Plain json_ok))) (get_request ''/index.html'')
        (assets_answering (Normal (Fulfilled guarded_html))) (ExecutionContext 0) empty_state =
        (Fulfilled ref, s') \<and>
      status (heap s' ref) = 200 \<and>
      statusText (heap s' ref) = ''OK'' \<and>
      body (heap s' ref) = Some ''<html>...'' \<and>
      headers_get (headers (heap s' ref)) ''etag'' = Some ''abc'' \<and>
      map length (values_of (headers (heap s' ref)) ''Content-Security-Policy'') = [256] \<and>
      headers_get (headers (heap s' ref)) ''content-security-policy'' =
        Some (''default-src '' @ [CHR 0x27] @ ''self'' @ [CHR 0x27] @ ''; script-src '' @
              [CHR 0x27] @ ''self'' @ [CHR 0x27] @ '' '' @ [CHR 0x27] @ ''unsafe-eval'' @
              [CHR 0x27] @ '' '' @ [CHR 0x27] @ ''unsafe-inline'' @ [CHR 0x27] @
              '' data: blob:; style-src '' @ [CHR 0x27] @ ''self'' @ [CHR 0x27] @ '' '' @
              [CHR 0x27] @ ''unsafe-inline'' @ [CHR 0x27] @ '' data:; worker-src '' @
              [CHR 0x27] @ ''self'' @ [CHR 0x27] @ '' blob:; child-src '' @ [CHR 0x27] @
              ''self'' @ [CHR 0x27] @ '' blob:; font-src '' @ [CHR 0x27] @ ''self'' @
              [CHR 0x27] @ '' data:; img-src '' @ [CHR 0x27] @ ''self'' @ [CHR 0x27] @
              '' data: blob:; connect-src '' @ [CHR 0x27] @ ''self'' @ [CHR 0x27] @
              '' ws: wss: https:;'')"
    using run etag fields len by simp
  then have "\<exists>ref s'.
      worker_fetch (deps_answering (Normal (Plain json_ok))) (get_request ''/index.html'')
        (assets_answering (Normal (Fulfilled guarded_html))) (ExecutionContext 0) empty_state =
        (Fulfilled ref, s') \<and>
      status (heap s' ref) = 200 \<and>
      statusText (heap s' ref) = ''OK'' \<and>
      body (heap s' ref) = Some ''<html>...'' \<and>
      headers_get (headers (heap s' ref)) ''etag'' = Some ''abc'' \<and>
      map length (values_of (headers (heap s' ref)) ''Content-Security-Policy'') = [256] \<and>
      headers_get (headers (heap s' ref)) ''content-security-policy'' =
        Some (''default-src '' @ [CHR 0x27] @ ''self'' @ [CHR 0x27] @ ''; script-src '' @
              [CHR 0x27] @ ''self'' @ [CHR 0x27] @ '' '' @ [CHR 0x27] @ ''unsafe-eval'' @
              [CHR 0x27] @ '' '' @ [CHR 0x27] @ ''unsafe-inline'' @ [CHR 0x27] @
              '' data: blob:; style-src '' @ [CHR 0x27] @ ''self'' @ [CHR 0x27] @ '' '' @
              [CHR 0x27] @ ''unsafe-inline'' @ [CHR 0x27] @ '' data:; worker-src '' @
              [CHR 0x27] @ ''self'' @ [CHR 0x27] @ '' blob:; child-src '' @ [CHR 0x27] @
              ''self'' @ [CHR 0x27] @ '' blob:; font-src '' @ [CHR 0x27] @ ''self'' @
              [CHR 0x27] @ '' data:; img-src '' @ [CHR 0x27] @ ''self'' @ [CHR 0x27] @
              '' data: blob:; connect-src '' @ [CHR 0x27] @ ''self'' @ [CHR 0x27] @
              '' ws: wss: https:;'')"
    by - (rule exI[where x = ref], rule exI[where x = s'], assumption)
  with h1 h2 h3 h4 h5 prior show ?thesis
    by simp
qed

text \<open>
  Claim C4. Which collaborator is called depends only on whether the path of the parsed
  URL starts with the five characters \<^verbatim>\<open>/api/\<close>, compared character by character.
  When it does, the run calls \<^verbatim>\<open>createApp\<close> and, with the application it returns,
  \<^verbatim>\<open>app.fetch\<close> with the request and the context: these are the run's events
  (followed by the log when one of the two throws), none of them is a call of the asset
  binding, the world after the run is the one the sub-application left, and the answer is
  the sub-application's. When it does not, the run's only event is one call of the asset
  binding with the request, and the world after the run is the one the binding left.
\<close>

theorem C4_dispatch_by_prefix:
  assumes "new_URL im (req_url request) = Normal u"
  shows "if startsWith (pathname u) ''/api/''
         then events_of im request env ctx s =
                (case createApp im env (world s) of
                   (Throw e, w) \<Rightarrow> [CreateApp, ConsoleError ''API request failed:'' e]
                 | (Normal app, w1) \<Rightarrow>
                     (case fst (app request env ctx w1) of
                        Throw e \<Rightarrow>
                          [CreateApp, AppFetch request ctx,
                           ConsoleError ''API request failed:'' e]
                      | Normal a \<Rightarrow> [CreateApp, AppFetch request ctx])) \<and>
              filter is_asset_call (events_of im request env ctx s) = [] \<and>
              take 1 (events_of im request env ctx s) = [CreateApp] \<and>
              world (snd (worker_fetch im request env ctx s)) =
                (case createApp im env (world s) of
                   (Throw e, w) \<Rightarrow> w
                 | (Normal app, w1) \<Rightarrow> snd (app request env ctx w1)) \<and>
              response_of (worker_fetch im request env ctx s) =
                (case dispatch_answer im request env ctx (world s) of
                   Throw e \<Rightarrow> Fulfilled api_error_response
                 | Normal (Plain r) \<Rightarrow> Fulfilled r
                 | Normal (Promise p) \<Rightarrow> p)
         else events_of im request env ctx s = [AssetsFetch request] \<and>
              filter is_app_call (events_of im request env ctx s) = [] \<and>
              world (snd (worker_fetch im request env ctx s)) =
                snd (ASSETS env request (world s))"
proof (cases "startsWith (pathname u) ''/api/''")
  case True
  obtain rest where "events_of im request env ctx s = CreateApp # rest"
    and "filter is_asset_call rest = []"
    using api_events_shape[where im = im and env = env and s = s and q = request and c = ctx]
    by (auto simp: events_of_api[OF assms True])
  then have "filter is_asset_call (events_of im request env ctx s) = []"
    and "take 1 (events_of im request env ctx s) = [CreateApp]"
    by simp_all
  with True show ?thesis
    by (simp add: events_of_api[OF assms True] fetch_api[OF assms True] serve_api_world
        serve_api_answer)
next
  case False
  then show ?thesis
    by (simp add: events_of_asset[OF assms False] fetch_asset[OF assms False] serve_asset_world)
qed

text \<open>
  \<^verbatim>\<open>/api/agent\<close> goes to the application, which is built and called with the request
  and the context, and \<^verbatim>\<open>/API/agent\<close>, in capitals, to the asset binding.
\<close>

theorem C4_dispatch_by_prefix_witness:
  "new_URL (deps_answering (Normal (Plain json_ok))) (req_url (get_request ''/api/agent'')) =
     Normal \<lparr>href = ''https://example.com/api/agent'', pathname = ''/api/agent'', search = []\<rparr> \<and>
   new_URL (deps_answering (Normal (Plain json_ok))) (req_url (get_request ''/API/agent'')) =
     Normal \<lparr>href = ''https://example.com/API/agent'', pathname = ''/API/agent'', search = []\<rparr> \<and>
   events_of (deps_answering (Normal (Plain json_ok))) (get_request ''/api/agent'')
     (assets_answering (Normal (Fulfilled app_js))) (ExecutionContext 7) empty_state =
     [CreateApp, AppFetch (get_request ''/api/agent'') (ExecutionContext 7)] \<and>
   world (snd (worker_fetch (deps_answering (Normal (Plain json_ok))) (get_request ''/api/agent'')
     (assets_answering (Normal (Fulfilled app_js))) (ExecutionContext 7) empty_state)) = 2 \<and>
   response_of (worker_fetch (deps_answering (Normal (Plain json_ok))) (get_request ''/api/agent'')
     (assets_answering (Normal (Fulfilled app_js))) (ExecutionContext 7) empty_state) =
     Fulfilled json_ok \<and>
   events_of (deps_answering (Normal (Plain json_ok))) (get_request ''/API/agent'')
     (assets_answering (Normal (Fulfilled app_js))) (ExecutionContext 7) empty_state =
     [AssetsFetch (get_request ''/API/agent'')] \<and>
   world (snd (worker_fetch (deps_answering (Normal (Plain json_ok))) (get_request ''/API/agent'')
     (assets_answering (Normal (Fulfilled app_js))) (ExecutionContext 7) empty_state)) = 1"
proof -
  let ?lower = "\<lparr>href = ''https://example.com/api/agent'', pathname = ''/api/agent'', search = []\<rparr>"
  let ?upper = "\<lparr>href = ''https://example.com/API/agent'', pathname = ''/API/agent'', search = []\<rparr>"
  let ?im = "deps_answering (Normal (Plain json_ok))"
  let ?env = "assets_answering (Normal (Fulfilled app_js))"
  have l: "new_URL ?im (req_url (get_request ''/api/agent'')) = Normal ?lower"
    by (simp add: scenario_defs)
  have u: "new_URL ?im (req_url (get_request ''/API/agent'')) = Normal ?upper"
    by (simp add: scenario_defs)
  have pl: "startsWith (pathname ?lower) ''/api/''" and pu: "\<not> startsWith (pathname ?upper) ''/api/''"
    by simp_all
  have k: "createApp ?im ?env (world empty_state) = (Normal (app_answering (Normal (Plain json_ok))), 1)"
    by (simp add: deps_answering_def empty_state_def)
  have a: "app_answering (Normal (Plain json_ok)) (get_request ''/api/agent'') ?env
      (ExecutionContext 7) 1 = (Normal (Plain json_ok), 2)"
    by (simp add: app_answering_def)
  have d: "dispatch_answer ?im (get_request ''/api/agent'') ?env (ExecutionContext 7)
      (world empty_state) = Normal (Plain json_ok)"
    using k a by (simp add: dispatch_answer_def)
  have b: "snd (ASSETS ?env (get_request ''/API/agent'') (world empty_state)) = 1"
    by (simp add: assets_answering_def empty_state_def)
  from C4_dispatch_by_prefix[OF l, of ?env "ExecutionContext 7" empty_state] pl k a d
  have api: "events_of ?im (get_request ''/api/agent'') ?env (ExecutionContext 7) empty_state =
      [CreateApp, AppFetch (get_request ''/api/agent'') (ExecutionContext 7)]"
    "world (snd (worker_fetch ?im (get_request ''/api/agent'') ?env (ExecutionContext 7)
       empty_state)) = 2"
    "response_of (worker_fetch ?im (get_request ''/api/agent'') ?env (ExecutionContext 7)
       empty_state) = Fulfilled json_ok"
    by simp_all
  from C4_dispatch_by_prefix[OF u, of ?env "ExecutionContext 7" empty_state] pu b
  have asset: "events_of ?im (get_request ''/API/agent'') ?env (ExecutionContext 7) empty_state =
      [AssetsFetch (get_request ''/API/agent'')]"
    "world (snd (worker_fetch ?im (get_request ''/API/agent'') ?env (ExecutionContext 7)
       empty_state)) = 1"
    by simp_all
  from l u api asset show ?thesis
    by simp
qed

text \<open>
  Claim C5. For a request outside \<^verbatim>\<open>/api/\<close> whose asset response has no
  \<^verbatim>\<open>content-type\<close> containing \<^verbatim>\<open>text/html\<close> (the header may be absent), the
  handler's promise is fulfilled with the asset binding's Response object itself: the
  reference and the final state are those the call of the binding left, so no second
  object was made and no header of the object was touched; the object has the status,
  headers and body the binding gave it, and every older object is as it was.
\<close>

theorem C5_other_response_returned_itself:
  assumes "new_URL im (req_url request) = Normal u"
    and "\<not> startsWith (pathname u) ''/api/''"
    and "ASSETS env request (world s) = (Normal (Fulfilled r), w)"
    and "case headers_get (headers r) ''content-type'' of
           None \<Rightarrow> True
         | Some ct \<Rightarrow> \<not> str_includes ct ''text/html''"
  shows "\<exists>ref s'. call_ASSETS_fetch env request s = (Normal (Fulfilled ref), s') \<and>
           worker_fetch im request env ctx s = (Fulfilled ref, s') \<and>
           heap s' ref = r \<and>
           next_ref s' = Suc (next_ref s) \<and>
           (\<forall>old. old \<noteq> ref \<longrightarrow> heap s' old = heap s old)"
proof -
  have plain: "\<not> is_html r"
    using assms(4) by (simp add: is_html_def split: option.splits)
  have "call_ASSETS_fetch env request s =
      (Normal (Fulfilled (next_ref s)),
       s\<lparr>heap := (heap s)(next_ref s := r), next_ref := Suc (next_ref s),
         trace := trace s @ [AssetsFetch request], world := w\<rparr>)"
    using assms(3) by (simp add: call_ASSETS_fetch_def emit_def alloc_def)
  then show ?thesis
    by (simp add: fetch_asset[OF assms(1,2)] serve_asset_plain[OF assms(3) plain])
qed

text \<open>
  The spec's example \<^verbatim>\<open>/assets/app.js\<close> with a JavaScript content type, and a 404
  without any header; neither answer has a Content-Security-Policy header.
\<close>

theorem C5_other_response_returned_itself_witness:
  "new_URL (deps_answering (Normal (Plain json_ok))) (req_url (get_request ''/assets/app.js'')) =
     Normal \<lparr>href = ''https://example.com/assets/app.js'', pathname = ''/assets/app.js'',
             search = []\<rparr> \<and>
   \<not> startsWith ''/assets/app.js'' ''/api/'' \<and>
   ASSETS (assets_answering (Normal (Fulfilled app_js))) (get_request ''/assets/app.js'')
     (world empty_state) = (Normal (Fulfilled app_js), 1) \<and>
   headers_get (headers app_js) ''content-type'' = Some ''application/javascript'' \<and>
   \<not> str_includes ''application/javascript'' ''text/html'' \<and>
   headers_get (headers bare_not_found) ''content-type'' = None \<and>
   (\<exists>ref s'.
      call_ASSETS_fetch (assets_answering (Normal (Fulfilled app_js)))
        (get_request ''/assets/app.js'') empty_state = (Normal (Fulfilled ref), s') \<and>
      worker_fetch (deps_answering (Normal (Plain json_ok))) (get_request ''/assets/app.js'')
        (assets_answering (Normal (Fulfilled app_js))) (ExecutionContext 0) empty_state =
        (Fulfilled ref, s') \<and>
      heap s' ref = app_js \<and>
      next_ref s' = 1 \<and>
      headers_get (headers (heap s' ref)) ''Content-Security-Policy'' = None) \<and>
   (\<exists>ref s'.
      call_ASSETS_fetch (assets_answering (Normal (Fulfilled bare_not_found)))
        (get_request ''/assets/app.js'') empty_state = (Normal (Fulfilled ref), s') \<and>
      worker_fetch (deps_answering (Normal (Plain json_ok))) (get_request ''/assets/app.js'')
        (assets_answering (Normal (Fulfilled bare_not_found))) (ExecutionContext 0) empty_state =
        (Fulfilled ref, s') \<and>
      heap s' ref = bare_not_found \<and>
      next_ref s' = 1 \<and>
      headers (heap s' ref) = [])"
proof -
  let ?u = "\<lparr>href = ''https://example.com/assets/app.js'', pathname = ''/assets/app.js'',
             search = []\<rparr>"
  have h1: "new_URL (deps_answering (Normal (Plain json_ok)))
      (req_url (get_request ''/assets/app.js'')) = Normal ?u"
    by (simp add: scenario_defs)
  have h2: "\<not> startsWith (pathname ?u) ''/api/''"
    by simp
  have h3: "ASSETS (assets_answering (Normal (Fulfilled app_js))) (get_request ''/assets/app.js'')
      (world empty_state) = (Normal (Fulfilled app_js), 1)"
    by (simp add: scenario_defs)
  have h3': "ASSETS (assets_answering (Normal (Fulfilled bare_not_found)))
      (get_request ''/assets/app.js'') (world empty_state) = (Normal (Fulfilled bare_not_found), 1)"
    by (simp add: scenario_defs)
  have ct: "headers_get (headers app_js) ''content-type'' = Some ''application/javascript''"
    by (simp add: app_js_def header_defs)
  have no: "\<not> str_includes ''application/javascript'' ''text/html''"
    by simp
  have absent: "headers_get (headers bare_not_found) ''content-type'' = None"
    by (simp add: bare_not_found_def header_defs)
  have h4: "case headers_get (headers app_js) ''content-type'' of
           None \<Rightarrow> True
         | Some ct \<Rightarrow> \<not> str_includes ct ''text/html''"
    using ct no by simp
  have h4': "case headers_get (headers bare_not_found) ''content-type'' of
           None \<Rightarrow> True
         | Some ct \<Rightarrow> \<not> str_includes ct ''text/html''"
    using absent by simp
  have csp: "headers_get (headers app_js) ''Content-Security-Policy'' = None"
    by (simp add: app_js_def header_defs)
  have none: "headers bare_not_found = []"
    by (simp add: bare_not_found_def)
  have n0: "next_ref empty_state = 0"
    by (simp add: empty_state_def)
  from C5_other_response_returned_itself[OF h1 h2 h3 h4, of "ExecutionContext 0"]
  have first: "\<exists>ref s'.
      call_ASSETS_fetch (assets_answering (Normal (Fulfilled app_js)))
        (get_request ''/assets/app.js'') empty_state = (Normal (Fulfilled ref), s') \<and>
      worker_fetch (deps_answering (Normal (Plain json_ok))) (get_request ''/assets/app.js'')
        (assets_answering (Normal (Fulfilled app_js))) (ExecutionContext 0) empty_state =
        (Fulfilled ref, s') \<and>
      heap s' ref = app_js \<and>
      next_ref s' = 1 \<and>
      headers_get (headers (heap s' ref)) ''Content-Security-Policy'' = None"
    using csp n0 by auto
  from C5_other_response_returned_itself[OF h1 h2 h3' h4', of "ExecutionContext 0"]
  have second: "\<exists>ref s'.
      call_ASSETS_fetch (assets_answering (Normal (Fulfilled bare_not_found)))
        (get_request ''/assets/app.js'') empty_state = (Normal (Fulfilled ref), s') \<and>
      worker_fetch (deps_answering (Normal (Plain json_ok))) (get_request ''/assets/app.js'')
        (assets_answering (Normal (Fulfilled bare_not_found))) (ExecutionContext 0) empty_state =
        (Fulfilled ref, s') \<and>
      heap s' ref = bare_not_found \<and>
      next_ref s' = 1 \<and>
      headers (heap s' ref) = []"
    using none n0 by auto
  from h1 h2 h3 ct no absent first second show ?thesis
    by simp
qed

text \<open>
  Claim C6, as stated: the response substituted for a failed delegation has an empty
  header map. The handler passes no headers to \<^verbatim>\<open>new Response('API Error', ...)\<close>, but
  the body is a string, and the constructor gives a response with a string body the
  header \<^verbatim>\<open>Content-Type: text/plain;charset=UTF-8\<close>. At \<^verbatim>\<open>/api/agent\<close> with an
  application whose \<^verbatim>\<open>fetch\<close> throws, the substituted response has one header.
\<close>

theorem C6_substitute_carries_content_type:
  "map_promise headers
     (response_of
        (worker_fetch (deps_answering (Throw (OtherError ''boom''))) (get_request ''/api/agent'')
           (assets_answering (Normal (Fulfilled app_js))) (ExecutionContext 0) empty_state)) =
     Fulfilled [(''Content-Type'', ''text/plain;charset=UTF-8'')] \<and>
   map_promise headers
     (response_of
        (worker_fetch (deps_answering (Throw (OtherError ''boom''))) (get_request ''/api/agent'')
           (assets_answering (Normal (Fulfilled app_js))) (ExecutionContext 0) empty_state)) \<noteq>
     Fulfilled []"
proof -
  let ?u = "\<lparr>href = ''https://example.com/api/agent'', pathname = ''/api/agent'', search = []\<rparr>"
  have h1: "new_URL (deps_answering (Throw (OtherError ''boom'')))
      (req_url (get_request ''/api/agent'')) = Normal ?u"
    by (simp add: scenario_defs)
  have h2: "startsWith (pathname ?u) ''/api/''"
    by simp
  have h3: "dispatch_answer (deps_answering (Throw (OtherError ''boom'')))
      (get_request ''/api/agent'') (assets_answering (Normal (Fulfilled app_js)))
      (ExecutionContext 0) (world empty_state) = Throw (OtherError ''boom'')"
    by (simp add: dispatch_answer_def deps_answering_def app_answering_def)
  show ?thesis
    using h3 by (simp add: fetch_api[OF h1 h2] serve_api_answer api_error_response_eq)
qed

text \<open>
  Claim C6, amended. Whenever the delegation of a request under \<^verbatim>\<open>/api/\<close> throws
  (\<^verbatim>\<open>createApp\<close> or the application's \<^verbatim>\<open>fetch\<close>), the handler's promise is fulfilled
  with a response of status 500 and body \<^verbatim>\<open>API Error\<close>; the handler adds no header of
  its own, and the response's only header is the
  \<^verbatim>\<open>Content-Type: text/plain;charset=UTF-8\<close> that the constructor derives from the
  string body.
\<close>

theorem C6_error_response:
  assumes "new_URL im (req_url request) = Normal u"
    and "startsWith (pathname u) ''/api/''"
    and "dispatch_answer im request env ctx (world s) = Throw e"
  shows "map_promise status (response_of (worker_fetch im request env ctx s)) = Fulfilled 500 \<and>
         map_promise body (response_of (worker_fetch im request env ctx s)) =
           Fulfilled (Some ''API Error'') \<and>
         map_promise headers (response_of (worker_fetch im request env ctx s)) =
           Fulfilled [(''Content-Type'', ''text/plain;charset=UTF-8'')]"
  using assms(3) by (simp add: fetch_api[OF assms(1,2)] serve_api_answer api_error_response_eq)

text \<open>A \<^verbatim>\<open>createApp\<close> that throws.\<close>

theorem C6_error_response_witness:
  "new_URL (deps_failing (TypeError ''no binding'')) (req_url (get_request ''/api/apps'')) =
     Normal \<lparr>href = ''https://example.com/api/apps'', pathname = ''/api/apps'', search = []\<rparr> \<and>
   startsWith ''/api/apps'' ''/api/'' \<and>
   dispatch_answer (deps_failing (TypeError ''no binding'')) (get_request ''/api/apps'')
     (assets_answering (Normal (Fulfilled app_js))) (ExecutionContext 0) (world empty_state) =
     Throw (TypeError ''no binding'') \<and>
   map_promise status
     (response_of
        (worker_fetch (deps_failing (TypeError ''no binding'')) (get_request ''/api/apps'')
           (assets_answering (Normal (Fulfilled app_js))) (ExecutionContext 0) empty_state)) =
     Fulfilled 500 \<and>
   map_promise body
     (response_of
        (worker_fetch (deps_failing (TypeError ''no binding'')) (get_request ''/api/apps'')
           (assets_answering (Normal (Fulfilled app_js))) (ExecutionContext 0) empty_state)) =
     Fulfilled (Some ''API Error'') \<and>
   map_promise headers
     (response_of
        (worker_fetch (deps_failing (TypeError ''no binding'')) (get_request ''/api/apps'')
           (assets_answering (Normal (Fulfilled app_js))) (ExecutionContext 0) empty_state)) =
     Fulfilled [(''Content-Type'', ''text/plain;charset=UTF-8'')]"
proof -
  let ?u = "\<lparr>href = ''https://example.com/api/apps'', pathname = ''/api/apps'', search = []\<rparr>"
  have h1: "new_URL (deps_failing (TypeError ''no binding'')) (req_url (get_request ''/api/apps'')) =
      Normal ?u"
    by (simp add: scenario_defs)
  have h2: "startsWith (pathname ?u) ''/api/''"
    by simp
  have h3: "dispatch_answer (deps_failing (TypeError ''no binding'')) (get_request ''/api/apps'')
      (assets_answering (Normal (Fulfilled app_js))) (ExecutionContext 0) (world empty_state) =
      Throw (TypeError ''no binding'')"
    by (simp add: dispatch_answer_def deps_failing_def)
  from C6_error_response[OF h1 h2 h3] h1 h2 h3 show ?thesis
    by simp
qed

text \<open>
  Claim C7 fails on the code at the same place as claim C1. The URL parses, the path is
  under \<^verbatim>\<open>/api/\<close>, and the application's \<^verbatim>\<open>fetch\<close> returns a promise that is
  rejected: the \<^verbatim>\<open>try\<close> block does not await it, nothing is substituted, and the
  handler's promise ends rejected. No Response object exists after the run.
\<close>

theorem C7_rejected_run_has_no_response:
  "new_URL (deps_answering (Normal (Promise (Rejected (OtherError ''down'')))))
     (req_url (get_request ''/api/status'')) =
     Normal \<lparr>href = ''https://example.com/api/status'', pathname = ''/api/status'',
             search = []\<rparr> \<and>
   fst (worker_fetch (deps_answering (Normal (Promise (Rejected (OtherError ''down'')))))
     (get_request ''/api/status'') (assets_answering (Normal (Fulfilled app_js)))
     (ExecutionContext 0) empty_state) = Rejected (OtherError ''down'') \<and>
   next_ref (snd (worker_fetch (deps_answering (Normal (Promise (Rejected (OtherError ''down'')))))
     (get_request ''/api/status'') (assets_answering (Normal (Fulfilled app_js)))
     (ExecutionContext 0) empty_state)) = 0"
proof -
  let ?u = "\<lparr>href = ''https://example.com/api/status'', pathname = ''/api/status'',
             search = []\<rparr>"
  let ?im = "deps_answering (Normal (Promise (Rejected (OtherError ''down''))))"
  have h1: "new_URL ?im (req_url (get_request ''/api/status'')) = Normal ?u"
    by (simp add: scenario_defs)
  have h2: "startsWith (pathname ?u) ''/api/''"
    by simp
  have k: "createApp ?im (assets_answering (Normal (Fulfilled app_js))) (world empty_state) =
      (Normal (app_answering (Normal (Promise (Rejected (OtherError ''down''))))), 1)"
    by (simp add: deps_answering_def empty_state_def)
  have a: "app_answering (Normal (Promise (Rejected (OtherError ''down''))))
      (get_request ''/api/status'') (assets_answering (Normal (Fulfilled app_js)))
      (ExecutionContext 0) 1 = (Normal (Promise (Rejected (OtherError ''down''))), 2)"
    by (simp add: app_answering_def)
  have run: "fst (worker_fetch ?im (get_request ''/api/status'')
      (assets_answering (Normal (Fulfilled app_js))) (ExecutionContext 0) empty_state) =
      Rejected (OtherError ''down'')"
    "next_ref (snd (worker_fetch ?im (get_request ''/api/status'')
      (assets_answering (Normal (Fulfilled app_js))) (ExecutionContext 0) empty_state)) =
      next_ref empty_state"
    by (simp_all add: fetch_api[OF h1 h2] serve_api_rejected[OF k a])
  have "next_ref empty_state = 0"
    by (simp add: empty_state_def)
  with h1 run show ?thesis
    by simp
qed

text \<open>
  Claim C8. The gateway's answer is a function of what the URL parser and the
  collaborators answer, and of nothing else: two runs, each from any state of the store,
  the trace and the world, with any collaborators, give the same answer (the same
  Response value, the same rejection, or both pending) whenever the requests parse alike
  and the asset binding and the sub-application answer alike in the two runs.
\<close>

theorem C8_worker_fetch_stateless:
  assumes "new_URL im1 (req_url q1) = new_URL im2 (req_url q2)"
    and "fst (ASSETS env1 q1 (world s1)) = fst (ASSETS env2 q2 (world s2))"
    and "dispatch_answer im1 q1 env1 c1 (world s1) = dispatch_answer im2 q2 env2 c2 (world s2)"
  shows "response_of (worker_fetch im1 q1 env1 c1 s1) =
         response_of (worker_fetch im2 q2 env2 c2 s2)"
  using assms
  by (simp add: worker_fetch_answer serve_asset_answer serve_api_answer split: completion.splits)

text \<open>
  The same request twice, the second run from the state the first one left: the store
  holds two more objects and the world has moved on, and the answers are equal. The
  references differ.
\<close>

theorem C8_worker_fetch_stateless_witness:
  "fst (ASSETS (assets_answering (Normal (Fulfilled index_html))) (get_request ''/index.html'')
        (world empty_state)) =
   fst (ASSETS (assets_answering (Normal (Fulfilled index_html))) (get_request ''/index.html'')
        (world (snd (worker_fetch (deps_answering (Normal (Plain json_ok)))
           (get_request ''/index.html'') (assets_answering (Normal (Fulfilled index_html)))
           (ExecutionContext 0) empty_state)))) \<and>
   response_of
     (worker_fetch (deps_answering (Normal (Plain json_ok))) (get_request ''/index.html'')
        (assets_answering (Normal (Fulfilled index_html))) (ExecutionContext 0) empty_state) =
   response_of
     (worker_fetch (deps_answering (Normal (Plain json_ok))) (get_request ''/index.html'')
        (assets_answering (Normal (Fulfilled index_html))) (ExecutionContext 1)
        (snd (worker_fetch (deps_answering (Normal (Plain json_ok)))
           (get_request ''/index.html'') (assets_answering (Normal (Fulfilled index_html)))
           (ExecutionContext 0) empty_state))) \<and>
   world (snd (worker_fetch (deps_answering (Normal (Plain json_ok)))
           (get_request ''/index.html'') (assets_answering (Normal (Fulfilled index_html)))
           (ExecutionContext 0) empty_state)) \<noteq> world empty_state"
proof -
  let ?im = "deps_answering (Normal (Plain json_ok))"
  let ?q = "get_request ''/index.html''"
  let ?env = "assets_answering (Normal (Fulfilled index_html))"
  let ?s2 = "snd (worker_fetch ?im ?q ?env (ExecutionContext 0) empty_state)"
  have h1: "new_URL ?im (req_url ?q) = new_URL ?im (req_url ?q)"
    by simp
  have h2: "fst (ASSETS ?env ?q (world empty_state)) = fst (ASSETS ?env ?q (world ?s2))"
    by (simp add: assets_answering_def)
  have h3: "dispatch_answer ?im ?q ?env (ExecutionContext 0) (world empty_state) =
      dispatch_answer ?im ?q ?env (ExecutionContext 1) (world ?s2)"
    by (simp add: dispatch_answer_def deps_answering_def app_answering_def)
  have moved: "world ?s2 \<noteq> world empty_state"
    by (simp add: worker_fetch_def serve_asset_def call_ASSETS_fetch_def emit_def alloc_def
        rewrite_html_def new_Response_def set_header_of_def scenario_defs
        split: prod.splits completion.splits promise.splits)
  from C8_worker_fetch_stateless[OF h1 h2 h3] h2 moved show ?thesis
    by simp
qed

text \<open>
  Claim C9 fails on the code at the same place as claim C1: on the failure path where the
  application's promise is rejected, the \<^verbatim>\<open>catch\<close> block is never entered and there is
  no \<^verbatim>\<open>console.error\<close>. At \<^verbatim>\<open>/api/apps\<close>, with an application whose \<^verbatim>\<open>fetch\<close>
  returns a rejected promise, the run's events are the two calls of the sub-application
  and no log emission, and the answer is the rejection.
\<close>

theorem C9_rejection_not_logged:
  "events_of (deps_answering (Normal (Promise (Rejected (TypeError ''no binding'')))))
     (get_request ''/api/apps'') (assets_answering (Normal (Fulfilled app_js)))
     (ExecutionContext 0) empty_state =
     [CreateApp, AppFetch (get_request ''/api/apps'') (ExecutionContext 0)] \<and>
   filter is_log
     (events_of (deps_answering (Normal (Promise (Rejected (TypeError ''no binding'')))))
        (get_request ''/api/apps'') (assets_answering (Normal (Fulfilled app_js)))
        (ExecutionContext 0) empty_state) = [] \<and>
   response_of
     (worker_fetch (deps_answering (Normal (Promise (Rejected (TypeError ''no binding'')))))
        (get_request ''/api/apps'') (assets_answering (Normal (Fulfilled app_js)))
        (ExecutionContext 0) empty_state) = Rejected (TypeError ''no binding'')"
proof -
  let ?u = "\<lparr>href = ''https://example.com/api/apps'', pathname = ''/api/apps'', search = []\<rparr>"
  let ?im = "deps_answering (Normal (Promise (Rejected (TypeError ''no binding''))))"
  have h1: "new_URL ?im (req_url (get_request ''/api/apps'')) = Normal ?u"
    by (simp add: scenario_defs)
  have h2: "startsWith (pathname ?u) ''/api/''"
    by simp
  have d: "dispatch_answer ?im (get_request ''/api/apps'')
      (assets_answering (Normal (Fulfilled app_js))) (ExecutionContext 0) (world empty_state) =
      Normal (Promise (Rejected (TypeError ''no binding'')))"
    by (simp add: dispatch_answer_def deps_answering_def app_answering_def)
  have ev: "events_of ?im (get_request ''/api/apps'') (assets_answering (Normal (Fulfilled app_js)))
      (ExecutionContext 0) empty_state =
      [CreateApp, AppFetch (get_request ''/api/apps'') (ExecutionContext 0)]"
    unfolding events_of_api[OF h1 h2] by (simp add: deps_answering_def app_answering_def)
  have ans: "response_of
     (worker_fetch ?im (get_request ''/api/apps'') (assets_answering (Normal (Fulfilled app_js)))
        (ExecutionContext 0) empty_state) = Rejected (TypeError ''no binding'')"
    using d by (simp add: fetch_api[OF h1 h2] serve_api_answer)
  from ev ans show ?thesis
    by simp
qed



end
